theory Spec2Isabelle
  imports Main
begin

section \<open>Strings and formatting\<close>

text \<open>
  Go strings are byte sequences; they are modelled as \<open>string\<close> (a list of 8-bit
  characters). An \<open>error\<close> value is modelled by its message, and
  \<open>fmt.Errorf("prefix: %w", err)\<close> by concatenation of the prefix and the wrapped message.
\<close>

type_synonym err = string

definition wrap :: "string \<Rightarrow> err \<Rightarrow> err" where
  "wrap prefix e = prefix @ '': '' @ e"

text \<open>The verb \<open>%d\<close> of \<open>fmt\<close>: decimal digits, with a leading minus sign for negatives.\<close>

definition digit_char :: "nat \<Rightarrow> char" where
  "digit_char d = ''0123456789'' ! d"

fun utoa :: "nat \<Rightarrow> string" where
  "utoa n = (if n < 10 then [digit_char n] else utoa (n div 10) @ [digit_char (n mod 10)])"

declare utoa.simps [simp del]

definition fmt_d :: "int \<Rightarrow> string" where
  "fmt_d i = (if i < 0 then CHR ''-'' # utoa (nat (- i)) else utoa (nat i))"

text \<open>The UTF-8 bytes of the symbols printed by the tool.\<close>

definition check_mark :: string where
  "check_mark = [CHR 0xE2, CHR 0x9C, CHR 0x93]"

definition rocket :: string where
  "rocket = [CHR 0xF0, CHR 0x9F, CHR 0x9A, CHR 0x80]"

text \<open>In cleanup.go the same symbols are stored as the bytes below.\<close>

definition check_mark_cleanup :: string where
  "check_mark_cleanup = [CHR 0xC3, CHR 0xA2, CHR 0xC5, CHR 0x93, CHR 0xE2, CHR 0x80, CHR 0x9C]"

definition broom_cleanup :: string where
  "broom_cleanup = [CHR 0xC3, CHR 0xB0, CHR 0xC5, CHR 0xB8, CHR 0xC2, CHR 0xA7, CHR 0xC2, CHR 0xB9]"

definition newline :: string where
  "newline = [CHR 0x0A]"

definition tabs :: "nat \<Rightarrow> string" where
  "tabs n = replicate n (CHR 0x09)"

definition unlines :: "string list \<Rightarrow> string" where
  "unlines ls = (case ls of [] \<Rightarrow> [] | l # rest \<Rightarrow> l @ concat (map (\<lambda>x. newline @ x) rest))"

text \<open>
  \<open>strings.Split(s, "/")\<close>: the pieces of \<open>s\<close> between the separators; the result always
  has at least one piece. \<open>split_slash_acc\<close> carries the piece being read, reversed.
\<close>

fun split_slash_acc :: "string \<Rightarrow> string \<Rightarrow> string list" where
  "split_slash_acc acc [] = [rev acc]"
| "split_slash_acc acc (c # cs) =
     (if c = CHR ''/'' then rev acc # split_slash_acc [] cs else split_slash_acc (c # acc) cs)"

definition Split_slash :: "string \<Rightarrow> string list" where
  "Split_slash s = split_slash_acc [] s"

text \<open>
  \<open>strings.ToLower\<close>: a string of ASCII bytes only has its letters \<open>A\<close>..\<open>Z\<close> moved to
  \<open>a\<close>..\<open>z\<close>; any other string is mapped rune by rune through the Unicode tables of the Go
  runtime, which are the parameter \<open>uni\<close>.
\<close>

definition is_ascii :: "char \<Rightarrow> bool" where
  "is_ascii c = ((of_char c :: nat) < 128)"

definition upper_lower :: "(char \<times> char) list" where
  "upper_lower = zip ''ABCDEFGHIJKLMNOPQRSTUVWXYZ'' ''abcdefghijklmnopqrstuvwxyz''"

definition lower_byte :: "char \<Rightarrow> char" where
  "lower_byte c = (case map_of upper_lower c of Some d \<Rightarrow> d | None \<Rightarrow> c)"

definition ToLower :: "(string \<Rightarrow> string) \<Rightarrow> string \<Rightarrow> string" where
  "ToLower uni s = (if list_all is_ascii s then map lower_byte s else uni s)"

text \<open>
  \<open>filepath.Ext\<close> (with \<open>/\<close> as the path separator): the suffix starting at the last dot of
  the last path element, empty when that element has no dot. \<open>ext_rev\<close> scans the reversed
  path, as the loop of the library scans from the end, collecting the bytes passed.
\<close>

fun ext_rev :: "string \<Rightarrow> string \<Rightarrow> string" where
  "ext_rev [] acc = []"
| "ext_rev (c # cs) acc =
     (if c = CHR ''/'' then []
      else if c = CHR ''.'' then c # acc
      else ext_rev cs (c # acc))"

definition Ext :: "string \<Rightarrow> string" where
  "Ext path = ext_rev (rev path) []"

section \<open>Configuration and environment identity (main.go)\<close>

record Config =
  PRNumber :: int
  AppName :: string
  Region :: string
  BaseDomain :: string
  CertificateARN :: string
  SourcePath :: string
  Action :: string
  RepoOwner :: string
  RepoName :: string

text \<open>
  The clients held by the Go struct are the provider record passed to every operation
  below; of the GitHub client only its presence is kept here.
\<close>

record PreviewManager =
  cfg :: Config
  githubClient :: "unit option"
  bucketName :: string
  fullDomain :: string
  subdomain :: string

text \<open>The part of \<open>main\<close> that derives the identity of the environment (lines 90 to 102).\<close>

definition main_bucketName :: "Config \<Rightarrow> string" where
  "main_bucketName c = ''pr-'' @ fmt_d (PRNumber c) @ ''-'' @ AppName c"

definition main_PreviewManager :: "Config \<Rightarrow> unit option \<Rightarrow> PreviewManager" where
  "main_PreviewManager c gh =
     \<lparr> cfg = c,
       githubClient = gh,
       bucketName = main_bucketName c,
       fullDomain = main_bucketName c @ ''.'' @ BaseDomain c,
       subdomain = main_bucketName c \<rparr>"

section \<open>Content types (main.go)\<close>

definition contentTypes :: "(string \<times> string) list" where
  "contentTypes =
     [(''.html'', ''text/html''),
      (''.css'', ''text/css''),
      (''.js'', ''application/javascript''),
      (''.json'', ''application/json''),
      (''.png'', ''image/png''),
      (''.jpg'', ''image/jpeg''),
      (''.jpeg'', ''image/jpeg''),
      (''.gif'', ''image/gif''),
      (''.svg'', ''image/svg+xml''),
      (''.ico'', ''image/x-icon''),
      (''.xml'', ''application/xml''),
      (''.pdf'', ''application/pdf''),
      (''.txt'', ''text/plain'')]"

definition getContentType :: "(string \<Rightarrow> string) \<Rightarrow> string \<Rightarrow> string" where
  "getContentType uni filename =
     (let ext = ToLower uni (Ext filename) in
      case map_of contentTypes ext of
        Some ct \<Rightarrow> ct
      | None \<Rightarrow> ''application/octet-stream'')"

section \<open>The cloud provider and the run state\<close>

text \<open>
  The values exchanged with the SDK clients. Only the members the tool reads or writes
  are kept; a \<open>Quantity\<close> member is the length of the list beside it. A slice that may be
  \<open>nil\<close> and is tested for it is an \<open>option\<close>. Members the SDK always sets
  (ids, names, entity tags) are plain values.
\<close>

record OriginAccessControlSummary =
  oac_Name :: string
  oac_Id :: string

record OriginAccessControlConfig =
  oacc_Name :: string
  oacc_Description :: string
  oacc_SigningProtocol :: string
  oacc_SigningBehavior :: string
  oacc_OriginType :: string

record DistributionSummary =
  ds_Id :: string
  ds_Aliases :: "string list option"

record Distribution =
  d_ARN :: string
  d_DomainName :: string

record Origin =
  o_Id :: string
  o_DomainName :: string
  o_OriginAccessIdentity :: string
  o_OriginAccessControlId :: string

record DefaultCacheBehavior =
  cb_TargetOriginId :: string
  cb_ViewerProtocolPolicy :: string
  cb_AllowedMethods :: "string list"
  cb_CachedMethods :: "string list"
  cb_QueryString :: bool
  cb_CookiesForward :: string
  cb_MinTTL :: int
  cb_DefaultTTL :: int
  cb_MaxTTL :: int
  cb_Compress :: bool
  cb_TrustedSignersEnabled :: bool
  cb_TrustedSigners :: "string list"

record CustomErrorResponse =
  cer_ErrorCode :: int
  cer_ResponsePagePath :: string
  cer_ResponseCode :: string
  cer_ErrorCachingMinTTL :: int

record ViewerCertificate =
  vc_ACMCertificateArn :: "string option"
  vc_SSLSupportMethod :: "string option"
  vc_MinimumProtocolVersion :: "string option"
  vc_CloudFrontDefaultCertificate :: "bool option"

record DistributionConfig =
  dc_CallerReference :: string
  dc_Comment :: string
  dc_Enabled :: bool
  dc_Aliases :: "string list"
  dc_DefaultRootObject :: string
  dc_Origins :: "Origin list"
  dc_DefaultCacheBehavior :: DefaultCacheBehavior
  dc_CustomErrorResponses :: "CustomErrorResponse list"
  dc_ViewerCertificate :: "ViewerCertificate option"

record HostedZone =
  hz_Id :: string
  hz_Name :: string

record ResourceRecordSet =
  rrs_Name :: string
  rrs_Type :: string
  rrs_TTL :: "int option"
  rrs_ResourceRecords :: "string list"

datatype ChangeAction = ChangeActionUpsert | ChangeActionDelete

text \<open>
  One page of \<open>ListObjectsV2\<close>: the keys of the objects, whether the listing is
  truncated, and the continuation token.
\<close>

record ObjectsPage =
  pg_Contents :: "string list"
  pg_IsTruncated :: bool
  pg_NextContinuationToken :: "string option"

text \<open>
  What \<open>filepath.Walk\<close> hands to its callback, in walk order: an error for the path, a
  directory, or a regular file with the results of \<open>filepath.Rel\<close> and \<open>os.ReadFile\<close>.
\<close>

datatype WalkEntry =
    WalkErr string err
  | WalkDir string
  | WalkFile string "err + string" "err + string"

text \<open>
  Every request the tool sends, with what was sent and what came back, and every line it
  prints. The events of a run, in order, are its observable behaviour.
\<close>

datatype api_call =
    HeadBucket string "err + unit"
  | CreateBucket string "string option" "err + unit"
  | PutObject string string string string "err + unit"
  | PutBucketPolicy string string "err + unit"
  | ListObjectsV2 string "string option" "err + ObjectsPage"
  | DeleteObjects string "string list" "err + unit"
  | DeleteBucket string "err + unit"
  | ListOriginAccessControls "err + OriginAccessControlSummary list option"
  | CreateOriginAccessControl OriginAccessControlConfig "err + string"
  | ListDistributions "err + DistributionSummary list option"
  | CreateDistribution DistributionConfig "err + string"
  | GetDistribution string "err + Distribution"
  | CreateInvalidation string string "string list" "err + unit"
  | GetDistributionConfig string "err + DistributionConfig \<times> string"
  | UpdateDistribution string DistributionConfig string "err + unit"
  | WaitDistributionDeployed string nat "err + unit"
  | DeleteDistribution string string "err + unit"
  | ListHostedZonesByName string "err + HostedZone list"
  | ListResourceRecordSets string string string nat "err + ResourceRecordSet list"
  | ChangeResourceRecordSets string ChangeAction ResourceRecordSet "err + unit"
  | CreateComment string string int string "err + unit"

datatype event = Print string | Call api_call

text \<open>
  The provider: each operation of a client takes its input and the state \<open>'w\<close> of the
  outside world and gives its result and the next state. Nothing is assumed about it.
  The waiter of the SDK polls until the distribution is deployed or the given number of
  minutes has passed, and then reports an error.
\<close>

record 'w clients =
  s3_HeadBucket :: "string \<Rightarrow> 'w \<Rightarrow> (err + unit) \<times> 'w"
  s3_CreateBucket :: "string \<Rightarrow> string option \<Rightarrow> 'w \<Rightarrow> (err + unit) \<times> 'w"
  s3_PutObject :: "string \<Rightarrow> string \<Rightarrow> string \<Rightarrow> string \<Rightarrow> 'w \<Rightarrow> (err + unit) \<times> 'w"
  s3_PutBucketPolicy :: "string \<Rightarrow> string \<Rightarrow> 'w \<Rightarrow> (err + unit) \<times> 'w"
  s3_ListObjectsV2 :: "string \<Rightarrow> string option \<Rightarrow> 'w \<Rightarrow> (err + ObjectsPage) \<times> 'w"
  s3_DeleteObjects :: "string \<Rightarrow> string list \<Rightarrow> 'w \<Rightarrow> (err + unit) \<times> 'w"
  s3_DeleteBucket :: "string \<Rightarrow> 'w \<Rightarrow> (err + unit) \<times> 'w"
  cf_ListOriginAccessControls :: "'w \<Rightarrow> (err + OriginAccessControlSummary list option) \<times> 'w"
  cf_CreateOriginAccessControl :: "OriginAccessControlConfig \<Rightarrow> 'w \<Rightarrow> (err + string) \<times> 'w"
  cf_ListDistributions :: "'w \<Rightarrow> (err + DistributionSummary list option) \<times> 'w"
  cf_CreateDistribution :: "DistributionConfig \<Rightarrow> 'w \<Rightarrow> (err + string) \<times> 'w"
  cf_GetDistribution :: "string \<Rightarrow> 'w \<Rightarrow> (err + Distribution) \<times> 'w"
  cf_CreateInvalidation :: "string \<Rightarrow> string \<Rightarrow> string list \<Rightarrow> 'w \<Rightarrow> (err + unit) \<times> 'w"
  cf_GetDistributionConfig :: "string \<Rightarrow> 'w \<Rightarrow> (err + DistributionConfig \<times> string) \<times> 'w"
  cf_UpdateDistribution :: "string \<Rightarrow> DistributionConfig \<Rightarrow> string \<Rightarrow> 'w \<Rightarrow> (err + unit) \<times> 'w"
  cf_WaitDistributionDeployed :: "string \<Rightarrow> nat \<Rightarrow> 'w \<Rightarrow> (err + unit) \<times> 'w"
  cf_DeleteDistribution :: "string \<Rightarrow> string \<Rightarrow> 'w \<Rightarrow> (err + unit) \<times> 'w"
  r53_ListHostedZonesByName :: "string \<Rightarrow> 'w \<Rightarrow> (err + HostedZone list) \<times> 'w"
  r53_ListResourceRecordSets ::
    "string \<Rightarrow> string \<Rightarrow> string \<Rightarrow> nat \<Rightarrow> 'w \<Rightarrow> (err + ResourceRecordSet list) \<times> 'w"
  r53_ChangeResourceRecordSets ::
    "string \<Rightarrow> ChangeAction \<Rightarrow> ResourceRecordSet \<Rightarrow> 'w \<Rightarrow> (err + unit) \<times> 'w"
  gh_CreateComment :: "string \<Rightarrow> string \<Rightarrow> int \<Rightarrow> string \<Rightarrow> 'w \<Rightarrow> (err + unit) \<times> 'w"
  fs_Walk :: "string \<Rightarrow> WalkEntry list"
  time_Now_Unix :: "'w \<Rightarrow> int"
  unicode_ToLower :: "string \<Rightarrow> string"

record 'w state =
  world :: 'w
  events :: "event list"

definition init :: "'w \<Rightarrow> 'w state" where
  "init w = \<lparr> world = w, events = [] \<rparr>"

definition Println :: "string \<Rightarrow> 'w state \<Rightarrow> 'w state" where
  "Println line s = s \<lparr> events := events s @ [Print line] \<rparr>"

definition request :: "('r \<Rightarrow> api_call) \<Rightarrow> ('w \<Rightarrow> 'r \<times> 'w) \<Rightarrow> 'w state \<Rightarrow> 'r \<times> 'w state" where
  "request mk f s =
     (case f (world s) of
        (r, w') \<Rightarrow> (r, \<lparr> world = w', events = events s @ [Call (mk r)] \<rparr>))"

text \<open>The calls of an event list, without the printed lines.\<close>

fun calls :: "event list \<Rightarrow> api_call list" where
  "calls [] = []"
| "calls (Print l # es) = calls es"
| "calls (Call c # es) = c # calls es"

section \<open>Deploy (deploy.go)\<close>

definition createS3Bucket :: "'w clients \<Rightarrow> PreviewManager \<Rightarrow> 'w state \<Rightarrow> (err + unit) \<times> 'w state" where
  "createS3Bucket env pm s0 =
     (let s = Println (''Creating S3 bucket: '' @ bucketName pm) s0 in
      case request (HeadBucket (bucketName pm)) (s3_HeadBucket env (bucketName pm)) s of
        (Inr u, s1) \<Rightarrow> (Inr (), Println (''  '' @ check_mark @ '' Bucket already exists'') s1)
      | (Inl e0, s1) \<Rightarrow>
          (let loc = (if Region (cfg pm) \<noteq> ''us-east-1'' then Some (Region (cfg pm)) else None) in
           case request (CreateBucket (bucketName pm) loc)
                  (s3_CreateBucket env (bucketName pm) loc) s1 of
             (Inl e, s2) \<Rightarrow> (Inl (wrap ''failed to create bucket'' e), s2)
           | (Inr u, s2) \<Rightarrow> (Inr (), Println (''  '' @ check_mark @ '' Bucket created'') s2)))"

text \<open>
  The callback of \<open>filepath.Walk\<close> applied to the entries in walk order; the first error
  it returns ends the walk. \<open>filepath.ToSlash\<close> is the identity where the separator is
  \<open>/\<close>.
\<close>

fun syncWalk ::
  "'w clients \<Rightarrow> PreviewManager \<Rightarrow> WalkEntry list \<Rightarrow> int \<Rightarrow> 'w state \<Rightarrow> (err + int) \<times> 'w state"
where
  "syncWalk env pm [] fileCount s = (Inr fileCount, s)"
| "syncWalk env pm (WalkErr path e # rest) fileCount s = (Inl e, s)"
| "syncWalk env pm (WalkDir path # rest) fileCount s = syncWalk env pm rest fileCount s"
| "syncWalk env pm (WalkFile path rel content # rest) fileCount s =
     (case rel of
        Inl e \<Rightarrow> (Inl e, s)
      | Inr relPath \<Rightarrow>
          (let s3Key = relPath;
               contentType = getContentType (unicode_ToLower env) path in
           case content of
             Inl e \<Rightarrow> (Inl (wrap (''failed to read file '' @ path) e), s)
           | Inr body \<Rightarrow>
               (case request (PutObject (bucketName pm) s3Key body contentType)
                       (s3_PutObject env (bucketName pm) s3Key body contentType) s of
                  (Inl e, s1) \<Rightarrow> (Inl (wrap (''failed to upload '' @ s3Key) e), s1)
                | (Inr u, s1) \<Rightarrow> syncWalk env pm rest (fileCount + 1) s1)))"

definition syncFilesToS3 :: "'w clients \<Rightarrow> PreviewManager \<Rightarrow> 'w state \<Rightarrow> (err + unit) \<times> 'w state" where
  "syncFilesToS3 env pm s0 =
     (let s = Println (''Syncing files from '' @ SourcePath (cfg pm) @ '' to S3...'') s0 in
      case syncWalk env pm (fs_Walk env (SourcePath (cfg pm))) 0 s of
        (Inl e, s1) \<Rightarrow> (Inl e, s1)
      | (Inr fileCount, s1) \<Rightarrow>
          (Inr (), Println (''  '' @ check_mark @ '' Uploaded '' @ fmt_d fileCount @ '' files'') s1))"

definition getOrCreateOAC :: "'w clients \<Rightarrow> PreviewManager \<Rightarrow> 'w state \<Rightarrow> (err + string) \<times> 'w state" where
  "getOrCreateOAC env pm s0 =
     (let s = Println ''Managing Origin Access Control...'' s0;
          oacName = ''OAC-'' @ bucketName pm in
      case request ListOriginAccessControls (cf_ListOriginAccessControls env) s of
        (Inl e, s1) \<Rightarrow> (Inl (wrap ''failed to list OACs'' e), s1)
      | (Inr listResult, s1) \<Rightarrow>
          (case find (\<lambda>oac. oac_Name oac = oacName) (case listResult of None \<Rightarrow> [] | Some items \<Rightarrow> items) of
             Some oac \<Rightarrow>
               (Inr (oac_Id oac), Println (''  '' @ check_mark @ '' Using existing OAC: '' @ oac_Id oac) s1)
           | None \<Rightarrow>
               (let s2 = Println ''  Creating new Origin Access Control...'' s1;
                    config = \<lparr> oacc_Name = oacName,
                               oacc_Description =
                                 ''OAC for PR #'' @ fmt_d (PRNumber (cfg pm)) @ '' preview environment'',
                               oacc_SigningProtocol = ''sigv4'',
                               oacc_SigningBehavior = ''always'',
                               oacc_OriginType = ''s3'' \<rparr> in
                case request (CreateOriginAccessControl config)
                       (cf_CreateOriginAccessControl env config) s2 of
                  (Inl e, s3) \<Rightarrow> (Inl (wrap ''failed to create OAC'' e), s3)
                | (Inr oacID, s3) \<Rightarrow>
                    (Inr oacID, Println (''  '' @ check_mark @ '' OAC created: '' @ oacID) s3))))"

definition bucketPolicy :: "string \<Rightarrow> string \<Rightarrow> string" where
  "bucketPolicy bucket distributionARN = unlines
     [''{'',
      tabs 2 @ ''\"Version\": \"2012-10-17\",'',
      tabs 2 @ ''\"Statement\": ['',
      tabs 3 @ ''{'',
      tabs 4 @ ''\"Sid\": \"AllowCloudFrontServicePrincipal\",'',
      tabs 4 @ ''\"Effect\": \"Allow\",'',
      tabs 4 @ ''\"Principal\": {'',
      tabs 5 @ ''\"Service\": \"cloudfront.amazonaws.com\"'',
      tabs 4 @ ''},'',
      tabs 4 @ ''\"Action\": \"s3:GetObject\",'',
      tabs 4 @ ''\"Resource\": \"arn:aws:s3:::'' @ bucket @ ''/*\",'',
      tabs 4 @ ''\"Condition\": {'',
      tabs 5 @ ''\"StringEquals\": {'',
      tabs 6 @ ''\"AWS:SourceArn\": \"'' @ distributionARN @ ''\"'',
      tabs 5 @ ''}'',
      tabs 4 @ ''}'',
      tabs 3 @ ''}'',
      tabs 2 @ '']'',
      tabs 1 @ ''}'']"

definition setBucketPolicyForOAC ::
  "'w clients \<Rightarrow> PreviewManager \<Rightarrow> string \<Rightarrow> 'w state \<Rightarrow> (err + unit) \<times> 'w state"
where
  "setBucketPolicyForOAC env pm distributionID s0 =
     (let s = Println ''Setting bucket policy for CloudFront OAC access...'' s0 in
      case request (GetDistribution distributionID) (cf_GetDistribution env distributionID) s of
        (Inl e, s1) \<Rightarrow> (Inl (wrap ''failed to get distribution'' e), s1)
      | (Inr dist, s1) \<Rightarrow>
          (let policy = bucketPolicy (bucketName pm) (d_ARN dist) in
           case request (PutBucketPolicy (bucketName pm) policy)
                  (s3_PutBucketPolicy env (bucketName pm) policy) s1 of
             (Inl e, s2) \<Rightarrow> (Inl (wrap ''failed to set bucket policy'' e), s2)
           | (Inr u, s2) \<Rightarrow>
               (Inr (), Println (''  '' @ check_mark @ '' Bucket policy configured for CloudFront access'') s2)))"

text \<open>
  The loops of \<open>findCloudFrontDistribution\<close>: the first listed distribution, in list
  order, one of whose aliases is the hostname. The empty id is what the function returns
  when there is none.
\<close>

definition hasAlias :: "string \<Rightarrow> DistributionSummary \<Rightarrow> bool" where
  "hasAlias domain dist =
     (case ds_Aliases dist of None \<Rightarrow> False | Some items \<Rightarrow> List.member items domain)"

definition findCloudFrontDistribution ::
  "'w clients \<Rightarrow> PreviewManager \<Rightarrow> 'w state \<Rightarrow> (err + string) \<times> 'w state"
where
  "findCloudFrontDistribution env pm s =
     (case request ListDistributions (cf_ListDistributions env) s of
        (Inl e, s1) \<Rightarrow> (Inl (wrap ''failed to list distributions'' e), s1)
      | (Inr None, s1) \<Rightarrow> (Inr [], s1)
      | (Inr (Some items), s1) \<Rightarrow>
          (case find (hasAlias (fullDomain pm)) items of
             Some dist \<Rightarrow> (Inr (ds_Id dist), s1)
           | None \<Rightarrow> (Inr [], s1)))"

definition distributionInput :: "PreviewManager \<Rightarrow> string \<Rightarrow> int \<Rightarrow> DistributionConfig" where
  "distributionInput pm oacID now =
     \<lparr> dc_CallerReference = ''pr-'' @ fmt_d (PRNumber (cfg pm)) @ ''-'' @ fmt_d now,
       dc_Comment = ''PR #'' @ fmt_d (PRNumber (cfg pm)) @ '' Preview Environment'',
       dc_Enabled = True,
       dc_Aliases = [fullDomain pm],
       dc_DefaultRootObject = ''index.html'',
       dc_Origins =
         [\<lparr> o_Id = ''S3-'' @ bucketName pm,
            o_DomainName = bucketName pm @ ''.s3.'' @ Region (cfg pm) @ ''.amazonaws.com'',
            o_OriginAccessIdentity = [],
            o_OriginAccessControlId = oacID \<rparr>],
       dc_DefaultCacheBehavior =
         \<lparr> cb_TargetOriginId = ''S3-'' @ bucketName pm,
           cb_ViewerProtocolPolicy = ''redirect-to-https'',
           cb_AllowedMethods = [''GET'', ''HEAD''],
           cb_CachedMethods = [''GET'', ''HEAD''],
           cb_QueryString = False,
           cb_CookiesForward = ''none'',
           cb_MinTTL = 0,
           cb_DefaultTTL = 86400,
           cb_MaxTTL = 31536000,
           cb_Compress = True,
           cb_TrustedSignersEnabled = False,
           cb_TrustedSigners = [] \<rparr>,
       dc_CustomErrorResponses =
         [\<lparr> cer_ErrorCode = 404,
            cer_ResponsePagePath = ''/index.html'',
            cer_ResponseCode = ''200'',
            cer_ErrorCachingMinTTL = 300 \<rparr>],
       dc_ViewerCertificate =
         Some (if CertificateARN (cfg pm) \<noteq> []
               then \<lparr> vc_ACMCertificateArn = Some (CertificateARN (cfg pm)),
                      vc_SSLSupportMethod = Some ''sni-only'',
                      vc_MinimumProtocolVersion = Some ''TLSv1.3_2025'',
                      vc_CloudFrontDefaultCertificate = None \<rparr>
               else \<lparr> vc_ACMCertificateArn = None,
                      vc_SSLSupportMethod = None,
                      vc_MinimumProtocolVersion = None,
                      vc_CloudFrontDefaultCertificate = Some True \<rparr>) \<rparr>"

definition createCloudFrontDistribution ::
  "'w clients \<Rightarrow> PreviewManager \<Rightarrow> string \<Rightarrow> 'w state \<Rightarrow> (err + string) \<times> 'w state"
where
  "createCloudFrontDistribution env pm oacID s0 =
     (let s = Println ''  Creating new CloudFront distribution...'' s0;
          input = distributionInput pm oacID (time_Now_Unix env (world s)) in
      case request (CreateDistribution input) (cf_CreateDistribution env input) s of
        (Inl e, s1) \<Rightarrow> (Inl (wrap ''failed to create distribution'' e), s1)
      | (Inr distributionID, s1) \<Rightarrow>
          (Inr distributionID,
           Println (''  '' @ check_mark @ '' Distribution created: '' @ distributionID) s1))"

definition getOrCreateCloudFrontDistribution ::
  "'w clients \<Rightarrow> PreviewManager \<Rightarrow> string \<Rightarrow> 'w state \<Rightarrow> (err + string) \<times> 'w state"
where
  "getOrCreateCloudFrontDistribution env pm oacID s0 =
     (let s = Println ''Managing CloudFront distribution...'' s0 in
      case findCloudFrontDistribution env pm s of
        (Inl e, s1) \<Rightarrow> (Inl e, s1)
      | (Inr distributionID, s1) \<Rightarrow>
          (if distributionID \<noteq> []
           then (Inr distributionID,
                 Println (''  '' @ check_mark @ '' Using existing distribution: '' @ distributionID) s1)
           else createCloudFrontDistribution env pm oacID s1))"

definition invalidateCloudFrontCache ::
  "'w clients \<Rightarrow> PreviewManager \<Rightarrow> string \<Rightarrow> 'w state \<Rightarrow> (err + unit) \<times> 'w state"
where
  "invalidateCloudFrontCache env pm distributionID s0 =
     (let s = Println ''Invalidating CloudFront cache...'' s0;
          callerReference = ''invalidation-'' @ fmt_d (time_Now_Unix env (world s)) in
      case request (CreateInvalidation distributionID callerReference [''/*''])
             (cf_CreateInvalidation env distributionID callerReference [''/*'']) s of
        (Inl e, s1) \<Rightarrow> (Inl (wrap ''failed to create invalidation'' e), s1)
      | (Inr u, s1) \<Rightarrow> (Inr (), Println (''  '' @ check_mark @ '' Cache invalidation created'') s1))"

text \<open>
  \<open>getHostedZoneID\<close> takes the first zone of the answer and returns the last piece of its
  id after splitting at \<open>/\<close>; \<open>strings.Split\<close> never returns an empty slice.
\<close>

definition getHostedZoneID :: "'w clients \<Rightarrow> PreviewManager \<Rightarrow> 'w state \<Rightarrow> (err + string) \<times> 'w state" where
  "getHostedZoneID env pm s =
     (case request (ListHostedZonesByName (BaseDomain (cfg pm)))
             (r53_ListHostedZonesByName env (BaseDomain (cfg pm))) s of
        (Inl e, s1) \<Rightarrow> (Inl (wrap ''failed to list hosted zones'' e), s1)
      | (Inr [], s1) \<Rightarrow> (Inl (''no hosted zone found for domain: '' @ BaseDomain (cfg pm)), s1)
      | (Inr (zone # others), s1) \<Rightarrow> (Inr (last (Split_slash (hz_Id zone))), s1))"

definition updateRoute53 ::
  "'w clients \<Rightarrow> PreviewManager \<Rightarrow> string \<Rightarrow> 'w state \<Rightarrow> (err + unit) \<times> 'w state"
where
  "updateRoute53 env pm distributionID s0 =
     (let s = Println ''Updating Route53 DNS records...'' s0 in
      case getHostedZoneID env pm s of
        (Inl e, s1) \<Rightarrow> (Inl e, s1)
      | (Inr hostedZoneID, s1) \<Rightarrow>
          (case request (GetDistribution distributionID) (cf_GetDistribution env distributionID) s1 of
             (Inl e, s2) \<Rightarrow> (Inl (wrap ''failed to get distribution'' e), s2)
           | (Inr dist, s2) \<Rightarrow>
               (let recordSet = \<lparr> rrs_Name = fullDomain pm,
                                  rrs_Type = ''CNAME'',
                                  rrs_TTL = Some 300,
                                  rrs_ResourceRecords = [d_DomainName dist] \<rparr> in
                case request (ChangeResourceRecordSets hostedZoneID ChangeActionUpsert recordSet)
                       (r53_ChangeResourceRecordSets env hostedZoneID ChangeActionUpsert recordSet) s2 of
                  (Inl e, s3) \<Rightarrow> (Inl (wrap ''failed to update DNS record'' e), s3)
                | (Inr u, s3) \<Rightarrow> (Inr (), Println (''  '' @ check_mark @ '' DNS record updated'') s3))))"

definition deployCommentBody :: "PreviewManager \<Rightarrow> string" where
  "deployCommentBody pm = unlines
     [''## Preview Environment Deployed Successfully! '' @ rocket,
      [],
      ''Your preview environment is now available at:'',
      ''**'' @ (''https://'' @ fullDomain pm) @ ''**'',
      [],
      ''Note: Initial deployment may take 3-5 minutes for CloudFront to propagate globally.'']"

definition postGitHubComment :: "'w clients \<Rightarrow> PreviewManager \<Rightarrow> 'w state \<Rightarrow> (err + unit) \<times> 'w state" where
  "postGitHubComment env pm s0 =
     (case githubClient pm of
        None \<Rightarrow> (Inr (), Println ''Skipping GitHub comment (no GitHub token provided)'' s0)
      | Some client \<Rightarrow>
          (let s = Println ''Posting GitHub PR comment...'' s0;
               body = deployCommentBody pm in
           case request (CreateComment (RepoOwner (cfg pm)) (RepoName (cfg pm)) (PRNumber (cfg pm)) body)
                  (gh_CreateComment env (RepoOwner (cfg pm)) (RepoName (cfg pm)) (PRNumber (cfg pm)) body) s of
             (Inl e, s1) \<Rightarrow> (Inl (wrap ''failed to create comment'' e), s1)
           | (Inr u, s1) \<Rightarrow> (Inr (), Println (''  '' @ check_mark @ '' GitHub PR comment posted'') s1)))"

definition Deploy :: "'w clients \<Rightarrow> PreviewManager \<Rightarrow> 'w state \<Rightarrow> (err + unit) \<times> 'w state" where
  "Deploy env pm s0 =
     (let s = Println ''Starting deployment...'' s0 in
      case createS3Bucket env pm s of
        (Inl e, s1) \<Rightarrow> (Inl (wrap ''failed to create S3 bucket'' e), s1)
      | (Inr u1, s1) \<Rightarrow>
      (case syncFilesToS3 env pm s1 of
        (Inl e, s2) \<Rightarrow> (Inl (wrap ''failed to sync files to S3'' e), s2)
      | (Inr u2, s2) \<Rightarrow>
      (case getOrCreateOAC env pm s2 of
        (Inl e, s3) \<Rightarrow> (Inl (wrap ''failed to manage OAC'' e), s3)
      | (Inr oacID, s3) \<Rightarrow>
      (case getOrCreateCloudFrontDistribution env pm oacID s3 of
        (Inl e, s4) \<Rightarrow> (Inl (wrap ''failed to manage CloudFront distribution'' e), s4)
      | (Inr distributionID, s4) \<Rightarrow>
      (case setBucketPolicyForOAC env pm distributionID s4 of
        (Inl e, s5) \<Rightarrow> (Inl (wrap ''failed to set bucket policy'' e), s5)
      | (Inr u5, s5) \<Rightarrow>
      (case invalidateCloudFrontCache env pm distributionID s5 of
        (Inl e, s6) \<Rightarrow> (Inl (wrap ''failed to invalidate CloudFront cache'' e), s6)
      | (Inr u6, s6) \<Rightarrow>
      (case updateRoute53 env pm distributionID s6 of
        (Inl e, s7) \<Rightarrow> (Inl (wrap ''failed to update Route53'' e), s7)
      | (Inr u7, s7) \<Rightarrow>
      (case postGitHubComment env pm s7 of
        (Inl e, s8) \<Rightarrow> (Inr (), Println (''Warning: Failed to post GitHub comment: '' @ e) s8)
      | (Inr u8, s8) \<Rightarrow> (Inr (), s8)))))))))"

section \<open>Cleanup (cleanup.go)\<close>

definition deleteCloudFrontDistribution ::
  "'w clients \<Rightarrow> PreviewManager \<Rightarrow> string \<Rightarrow> 'w state \<Rightarrow> (err + unit) \<times> 'w state"
where
  "deleteCloudFrontDistribution env pm distributionID s0 =
     (let s = Println (''Deleting CloudFront distribution: '' @ distributionID) s0 in
      case request (GetDistributionConfig distributionID)
             (cf_GetDistributionConfig env distributionID) s of
        (Inl e, s1) \<Rightarrow> (Inl (wrap ''failed to get distribution config'' e), s1)
      | (Inr (distConfig, etag), s1) \<Rightarrow>
      (case (if dc_Enabled distConfig
             then (let s2 = Println ''  Disabling distribution...'' s1;
                       disabled = distConfig \<lparr> dc_Enabled := False \<rparr> in
                   case request (UpdateDistribution distributionID disabled etag)
                          (cf_UpdateDistribution env distributionID disabled etag) s2 of
                     (Inl e, s3) \<Rightarrow> (Inl (wrap ''failed to disable distribution'' e), s3)
                   | (Inr u, s3) \<Rightarrow>
                       (let s4 = Println ''  Waiting for distribution to be disabled...'' s3 in
                        case request (WaitDistributionDeployed distributionID 20)
                               (cf_WaitDistributionDeployed env distributionID 20) s4 of
                          (Inl e, s5) \<Rightarrow>
                            (Inl (wrap ''failed waiting for distribution to be disabled'' e), s5)
                        | (Inr u', s5) \<Rightarrow> (Inr (), s5)))
             else (Inr (), s1)) of
        (Inl e, s6) \<Rightarrow> (Inl e, s6)
      | (Inr u, s6) \<Rightarrow>
      (case request (GetDistributionConfig distributionID)
              (cf_GetDistributionConfig env distributionID) s6 of
        (Inl e, s7) \<Rightarrow> (Inl (wrap ''failed to get updated distribution config'' e), s7)
      | (Inr (distConfig', etag'), s7) \<Rightarrow>
      (let s8 = Println ''  Deleting distribution...'' s7 in
       case request (DeleteDistribution distributionID etag')
              (cf_DeleteDistribution env distributionID etag') s8 of
         (Inl e, s9) \<Rightarrow> (Inl (wrap ''failed to delete distribution'' e), s9)
       | (Inr u, s9) \<Rightarrow>
           (Inr (), Println (''  '' @ check_mark_cleanup @ '' Distribution deleted'') s9)))))"

definition deleteRoute53Record :: "'w clients \<Rightarrow> PreviewManager \<Rightarrow> 'w state \<Rightarrow> (err + unit) \<times> 'w state" where
  "deleteRoute53Record env pm s0 =
     (let s = Println ''Deleting Route53 DNS record...'' s0 in
      case getHostedZoneID env pm s of
        (Inl e, s1) \<Rightarrow> (Inl e, s1)
      | (Inr hostedZoneID, s1) \<Rightarrow>
      (case request (ListResourceRecordSets hostedZoneID (fullDomain pm) ''CNAME'' 1)
              (r53_ListResourceRecordSets env hostedZoneID (fullDomain pm) ''CNAME'' 1) s1 of
        (Inl e, s2) \<Rightarrow> (Inl (wrap ''failed to list records'' e), s2)
      | (Inr [], s2) \<Rightarrow> (Inr (), Println ''  No DNS record found'' s2)
      | (Inr (recordSet # others), s2) \<Rightarrow>
          (if rrs_Name recordSet \<noteq> fullDomain pm @ ''.''
           then (Inr (), Println ''  No DNS record found'' s2)
           else
             (case request (ChangeResourceRecordSets hostedZoneID ChangeActionDelete recordSet)
                     (r53_ChangeResourceRecordSets env hostedZoneID ChangeActionDelete recordSet) s2 of
                (Inl e, s3) \<Rightarrow> (Inl (wrap ''failed to delete DNS record'' e), s3)
              | (Inr u, s3) \<Rightarrow>
                  (Inr (), Println (''  '' @ check_mark_cleanup @ '' DNS record deleted'') s3)))))"

text \<open>
  The paginator loop of \<open>deleteS3Bucket\<close>. The paginator of the SDK has a next page at the
  start, and after a page when that page is truncated and carries a non-empty
  continuation token. The provider decides how many pages there are, so the loop need
  not end: the result is \<open>None\<close> when it does not.
\<close>

partial_function (option) deletePages ::
  "'w clients \<Rightarrow> PreviewManager \<Rightarrow> string option \<Rightarrow> 'w state \<Rightarrow> ((err + unit) \<times> 'w state) option"
where
  "deletePages env pm token s =
     (case request (ListObjectsV2 (bucketName pm) token)
             (s3_ListObjectsV2 env (bucketName pm) token) s of
        (Inl e, s1) \<Rightarrow> Some (Inl (wrap ''failed to list objects'' e), s1)
      | (Inr page, s1) \<Rightarrow>
      (case (if pg_Contents page \<noteq> []
             then request (DeleteObjects (bucketName pm) (pg_Contents page))
                    (s3_DeleteObjects env (bucketName pm) (pg_Contents page)) s1
             else (Inr (), s1)) of
        (Inl e, s2) \<Rightarrow> Some (Inl (wrap ''failed to delete objects'' e), s2)
      | (Inr u, s2) \<Rightarrow>
      (let nextToken = (if pg_IsTruncated page then pg_NextContinuationToken page else None) in
       if nextToken \<noteq> None \<and> nextToken \<noteq> Some []
       then deletePages env pm nextToken s2
       else Some (Inr (), s2))))"

definition deleteS3Bucket ::
  "'w clients \<Rightarrow> PreviewManager \<Rightarrow> 'w state \<Rightarrow> ((err + unit) \<times> 'w state) option"
where
  "deleteS3Bucket env pm s0 =
     (let s = Println (''Deleting S3 bucket: '' @ bucketName pm) s0 in
      case request (HeadBucket (bucketName pm)) (s3_HeadBucket env (bucketName pm)) s of
        (Inl e, s1) \<Rightarrow> Some (Inr (), Println ''  Bucket does not exist'' s1)
      | (Inr u, s1) \<Rightarrow>
      (let s2 = Println ''  Deleting all objects...'' s1 in
       case deletePages env pm None s2 of
         None \<Rightarrow> None
       | Some (Inl e, s3) \<Rightarrow> Some (Inl e, s3)
       | Some (Inr u', s3) \<Rightarrow>
       (case request (DeleteBucket (bucketName pm)) (s3_DeleteBucket env (bucketName pm)) s3 of
          (Inl e, s4) \<Rightarrow> Some (Inl (wrap ''failed to delete bucket'' e), s4)
        | (Inr u'', s4) \<Rightarrow>
            Some (Inr (), Println (''  '' @ check_mark_cleanup @ '' Bucket deleted'') s4))))"

definition cleanupCommentBody :: "PreviewManager \<Rightarrow> string" where
  "cleanupCommentBody pm = unlines
     [''## Preview Environment Cleanup Complete '' @ broom_cleanup,
      [],
      ''The preview environment for PR #'' @ fmt_d (PRNumber (cfg pm)) @
        '' has been successfully cleaned up.'',
      [],
      ''All resources have been removed:'',
      ''- CloudFront distribution'',
      ''- Route53 DNS records'',
      ''- S3 bucket and contents'']"

definition postCleanupGitHubComment ::
  "'w clients \<Rightarrow> PreviewManager \<Rightarrow> 'w state \<Rightarrow> (err + unit) \<times> 'w state"
where
  "postCleanupGitHubComment env pm s0 =
     (case githubClient pm of
        None \<Rightarrow> (Inr (), Println ''Skipping GitHub comment (no GitHub token provided)'' s0)
      | Some client \<Rightarrow>
          (let s = Println ''Posting cleanup GitHub PR comment...'' s0;
               body = cleanupCommentBody pm in
           case request (CreateComment (RepoOwner (cfg pm)) (RepoName (cfg pm)) (PRNumber (cfg pm)) body)
                  (gh_CreateComment env (RepoOwner (cfg pm)) (RepoName (cfg pm)) (PRNumber (cfg pm)) body) s of
             (Inl e, s1) \<Rightarrow> (Inl (wrap ''failed to create comment'' e), s1)
           | (Inr u, s1) \<Rightarrow>
               (Inr (), Println (''  '' @ check_mark_cleanup @ '' GitHub PR comment posted'') s1)))"

definition Cleanup ::
  "'w clients \<Rightarrow> PreviewManager \<Rightarrow> 'w state \<Rightarrow> ((err + unit) \<times> 'w state) option"
where
  "Cleanup env pm s0 =
     (let s = Println ''Starting cleanup...'' s0 in
      case findCloudFrontDistribution env pm s of
        (Inl e, s1) \<Rightarrow> Some (Inl (wrap ''failed to find distribution'' e), s1)
      | (Inr distributionID, s1) \<Rightarrow>
      (case (if distributionID \<noteq> []
             then (case deleteCloudFrontDistribution env pm distributionID s1 of
                     (Inl e, s2) \<Rightarrow> (Inl (wrap ''failed to delete CloudFront distribution'' e), s2)
                   | (Inr u, s2) \<Rightarrow> (Inr (), s2))
             else (Inr (), Println ''  No CloudFront distribution found'' s1)) of
        (Inl e, s2) \<Rightarrow> Some (Inl e, s2)
      | (Inr u, s2) \<Rightarrow>
      (let s3 = (case deleteRoute53Record env pm s2 of
                   (Inl e, s') \<Rightarrow> Println (''  Warning: Failed to delete Route53 record: '' @ e) s'
                 | (Inr u', s') \<Rightarrow> s') in
       case deleteS3Bucket env pm s3 of
         None \<Rightarrow> None
       | Some (Inl e, s4) \<Rightarrow> Some (Inl (wrap ''failed to delete S3 bucket'' e), s4)
       | Some (Inr u', s4) \<Rightarrow>
           (case postCleanupGitHubComment env pm s4 of
              (Inl e, s5) \<Rightarrow> Some (Inr (), Println (''Warning: Failed to post GitHub comment: '' @ e) s5)
            | (Inr u'', s5) \<Rightarrow> Some (Inr (), s5)))))"

section \<open>Observations on a run\<close>

text \<open>The operation a request belongs to, whatever its input and answer.\<close>

datatype operation =
    OpHeadBucket | OpCreateBucket | OpPutObject | OpPutBucketPolicy | OpListObjectsV2
  | OpDeleteObjects | OpDeleteBucket | OpListOriginAccessControls
  | OpCreateOriginAccessControl | OpListDistributions | OpCreateDistribution
  | OpGetDistribution | OpCreateInvalidation | OpGetDistributionConfig
  | OpUpdateDistribution | OpWaitDistributionDeployed | OpDeleteDistribution
  | OpListHostedZonesByName | OpListResourceRecordSets | OpUpsertRecord | OpDeleteRecord
  | OpCreateComment

fun operation_of :: "api_call \<Rightarrow> operation" where
  "operation_of (HeadBucket b r) = OpHeadBucket"
| "operation_of (CreateBucket b l r) = OpCreateBucket"
| "operation_of (PutObject b k d t r) = OpPutObject"
| "operation_of (PutBucketPolicy b p r) = OpPutBucketPolicy"
| "operation_of (ListObjectsV2 b t r) = OpListObjectsV2"
| "operation_of (DeleteObjects b ks r) = OpDeleteObjects"
| "operation_of (DeleteBucket b r) = OpDeleteBucket"
| "operation_of (ListOriginAccessControls r) = OpListOriginAccessControls"
| "operation_of (CreateOriginAccessControl c r) = OpCreateOriginAccessControl"
| "operation_of (ListDistributions r) = OpListDistributions"
| "operation_of (CreateDistribution c r) = OpCreateDistribution"
| "operation_of (GetDistribution i r) = OpGetDistribution"
| "operation_of (CreateInvalidation i c ps r) = OpCreateInvalidation"
| "operation_of (GetDistributionConfig i r) = OpGetDistributionConfig"
| "operation_of (UpdateDistribution i c t r) = OpUpdateDistribution"
| "operation_of (WaitDistributionDeployed i m r) = OpWaitDistributionDeployed"
| "operation_of (DeleteDistribution i t r) = OpDeleteDistribution"
| "operation_of (ListHostedZonesByName n r) = OpListHostedZonesByName"
| "operation_of (ListResourceRecordSets z n t m r) = OpListResourceRecordSets"
| "operation_of (ChangeResourceRecordSets z ChangeActionUpsert rs r) = OpUpsertRecord"
| "operation_of (ChangeResourceRecordSets z ChangeActionDelete rs r) = OpDeleteRecord"
| "operation_of (CreateComment ownr repo n body r) = OpCreateComment"

definition operations :: "event list \<Rightarrow> operation set" where
  "operations es = operation_of ` set (calls es)"

section \<open>Example accounts\<close>

text \<open>
  Concrete providers on which the operations are evaluated. The state of the world is
  the number of requests answered so far.
\<close>

definition demo_cfg :: Config where
  "demo_cfg =
     \<lparr> PRNumber = 42, AppName = ''site'', Region = ''us-east-1'',
       BaseDomain = ''example.test'', CertificateARN = ''arn:aws:acm:us-east-1:1:certificate/c1'',
       SourcePath = ''dist'', Action = ''deploy'', RepoOwner = ''octo'', RepoName = ''web'' \<rparr>"

definition demo_pm :: PreviewManager where
  "demo_pm = main_PreviewManager demo_cfg (Some ())"

definition ok :: "nat \<Rightarrow> (err + unit) \<times> nat" where
  "ok w = (Inr (), Suc w)"

definition failing :: "err \<Rightarrow> nat \<Rightarrow> (err + 'a) \<times> nat" where
  "failing e w = (Inl e, Suc w)"

definition answer :: "'a \<Rightarrow> nat \<Rightarrow> (err + 'a) \<times> nat" where
  "answer x w = (Inr x, Suc w)"

definition demo_config :: DistributionConfig where
  "demo_config = distributionInput demo_pm ''O1'' 1700000000"

text \<open>An account in which the environment of \<open>demo_pm\<close> is fully deployed.\<close>

definition deployed_account :: "nat clients" where
  "deployed_account =
     \<lparr> s3_HeadBucket = (\<lambda>b. ok),
       s3_CreateBucket = (\<lambda>b l. failing ''BucketAlreadyOwnedByYou''),
       s3_PutObject = (\<lambda>b k d t. ok),
       s3_PutBucketPolicy = (\<lambda>b p. ok),
       s3_ListObjectsV2 = (\<lambda>b t. answer
          \<lparr> pg_Contents = [''index.html'', ''assets/app.js''], pg_IsTruncated = False,
            pg_NextContinuationToken = None \<rparr>),
       s3_DeleteObjects = (\<lambda>b ks. ok),
       s3_DeleteBucket = (\<lambda>b. ok),
       cf_ListOriginAccessControls = answer (Some
          [\<lparr> oac_Name = ''OAC-pr-7-docs'', oac_Id = ''O0'' \<rparr>,
           \<lparr> oac_Name = ''OAC-pr-42-site'', oac_Id = ''O1'' \<rparr>]),
       cf_CreateOriginAccessControl = (\<lambda>c. failing ''OriginAccessControlAlreadyExists''),
       cf_ListDistributions = answer (Some
          [\<lparr> ds_Id = ''E0'', ds_Aliases = None \<rparr>,
           \<lparr> ds_Id = ''E1'', ds_Aliases = Some [''pr-42-site.example.test''] \<rparr>]),
       cf_CreateDistribution = (\<lambda>c. failing ''CNAMEAlreadyExists''),
       cf_GetDistribution = (\<lambda>i. answer
          \<lparr> d_ARN = ''arn:aws:cloudfront::1:distribution/'' @ i,
            d_DomainName = ''d111.cloudfront.net'' \<rparr>),
       cf_CreateInvalidation = (\<lambda>i c ps. ok),
       cf_GetDistributionConfig = (\<lambda>i w.
          answer (demo_config \<lparr> dc_Enabled := (w < 3) \<rparr>, ''etag-'' @ fmt_d (int w)) w),
       cf_UpdateDistribution = (\<lambda>i c t. ok),
       cf_WaitDistributionDeployed = (\<lambda>i m. ok),
       cf_DeleteDistribution = (\<lambda>i t. ok),
       r53_ListHostedZonesByName = (\<lambda>n. answer
          [\<lparr> hz_Id = ''/hostedzone/Z1'', hz_Name = ''example.test.'' \<rparr>]),
       r53_ListResourceRecordSets = (\<lambda>z n t m. answer
          [\<lparr> rrs_Name = ''pr-42-site.example.test.'', rrs_Type = ''CNAME'', rrs_TTL = Some 300,
             rrs_ResourceRecords = [''d111.cloudfront.net''] \<rparr>]),
       r53_ChangeResourceRecordSets = (\<lambda>z a rs. ok),
       gh_CreateComment = (\<lambda>ownr repo n body. ok),
       fs_Walk = (\<lambda>p.
          [WalkDir p,
           WalkFile (p @ ''/index.html'') (Inr ''index.html'') (Inr ''<html></html>''),
           WalkDir (p @ ''/assets''),
           WalkFile (p @ ''/assets/app.js'') (Inr ''assets/app.js'') (Inr ''let x = 1'')]),
       time_Now_Unix = (\<lambda>w. 1700000000 + int w),
       unicode_ToLower = id \<rparr>"

text \<open>
  The same account when the existence check of the bucket fails for a passing reason.
\<close>

definition flaky_head_account :: "nat clients" where
  "flaky_head_account = deployed_account \<lparr> s3_HeadBucket := (\<lambda>b. failing ''RequestTimeout'') \<rparr>"

text \<open>An account that holds nothing of the environment of \<open>demo_pm\<close>.\<close>

definition empty_account :: "nat clients" where
  "empty_account =
     deployed_account
       \<lparr> s3_HeadBucket := (\<lambda>b. failing ''NotFound''),
         s3_CreateBucket := (\<lambda>b l. ok),
         cf_ListOriginAccessControls := answer (Some []),
         cf_CreateOriginAccessControl := (\<lambda>c. answer ''O9''),
         cf_ListDistributions := answer None,
         cf_CreateDistribution := (\<lambda>c. answer ''E9''),
         r53_ListHostedZonesByName := (\<lambda>n. answer []),
         r53_ListResourceRecordSets := (\<lambda>z n t m. answer []) \<rparr>"

text \<open>The distribution list cannot be read.\<close>

definition unlistable_account :: "nat clients" where
  "unlistable_account = deployed_account \<lparr> cf_ListDistributions := failing ''AccessDenied'' \<rparr>"

text \<open>
  The base domain has no hosted zone; the listing by name starts at that name and
  returns the zone that follows it.
\<close>

definition other_zone_account :: "nat clients" where
  "other_zone_account =
     deployed_account
       \<lparr> r53_ListHostedZonesByName := (\<lambda>n. answer
            [\<lparr> hz_Id = ''/hostedzone/Z2OTHER'', hz_Name = ''example.zone.'' \<rparr>]) \<rparr>"

text \<open>
  The distribution is disabled when the teardown first reads it and enabled again when
  it is read the second time.
\<close>

definition reenabled_account :: "nat clients" where
  "reenabled_account =
     deployed_account
       \<lparr> cf_GetDistributionConfig :=
           (\<lambda>i w. answer (demo_config \<lparr> dc_Enabled := (w \<noteq> 0) \<rparr>, ''etag-'' @ fmt_d (int w)) w) \<rparr>"

text \<open>
  The order demanded of the DNS deletion: scanning the requests of a run, \<open>seen\<close> is the
  first record of the latest record listing when that record is named after the hostname
  with a final dot; a delete change is admitted only for that very record.
\<close>

fun dns_delete_guarded :: "string \<Rightarrow> ResourceRecordSet option \<Rightarrow> api_call list \<Rightarrow> bool" where
  "dns_delete_guarded host seen [] = True"
| "dns_delete_guarded host seen (ListResourceRecordSets z n t m (Inr (r # rest)) # cs) =
     dns_delete_guarded host (if rrs_Name r = host @ ''.'' then Some r else None) cs"
| "dns_delete_guarded host seen (ListResourceRecordSets z n t m res # cs) =
     dns_delete_guarded host None cs"
| "dns_delete_guarded host seen (ChangeResourceRecordSets z ChangeActionDelete rs res # cs) =
     (seen = Some rs \<and> dns_delete_guarded host seen cs)"
| "dns_delete_guarded host seen (c # cs) = dns_delete_guarded host seen cs"

text \<open>
  The order demanded of the distribution teardown, in the words of the specification:
  scanning the requests of a run, \<open>latest\<close> is the enabled flag of the configuration
  fetched most recently; a delete is admitted only when that flag is off.
\<close>

fun delete_while_disabled :: "bool option \<Rightarrow> api_call list \<Rightarrow> bool" where
  "delete_while_disabled latest [] = True"
| "delete_while_disabled latest (GetDistributionConfig i (Inr (c, t)) # cs) =
     delete_while_disabled (Some (dc_Enabled c)) cs"
| "delete_while_disabled latest (DeleteDistribution i t res # cs) =
     (latest = Some False \<and> delete_while_disabled latest cs)"
| "delete_while_disabled latest (c # cs) = delete_while_disabled latest cs"

text \<open>The records of the zone cannot be listed.\<close>

definition unreadable_records_account :: "nat clients" where
  "unreadable_records_account =
     deployed_account \<lparr> r53_ListResourceRecordSets := (\<lambda>z n t m. failing ''Throttling'') \<rparr>"

text \<open>
  The hostname has no record; the listing starts at that name and returns the record
  that follows it.
\<close>

definition foreign_record_account :: "nat clients" where
  "foreign_record_account =
     deployed_account
       \<lparr> r53_ListResourceRecordSets := (\<lambda>z n t m. answer
            [\<lparr> rrs_Name = ''pr-43-site.example.test.'', rrs_Type = ''CNAME'', rrs_TTL = Some 300,
               rrs_ResourceRecords = [''d222.cloudfront.net''] \<rparr>]) \<rparr>"

section \<open>The deploy order of the specification\<close>

text \<open>
  The specification describes \<open>Deploy\<close> as a fixed list of steps run in order, each step
  using what the earlier ones produced, the run stopping at the first step that fails,
  and a notification at the end whose failure is only reported. \<open>run_steps\<close> and
  \<open>Deploy_spec\<close> say this; \<open>deploy_ctx\<close> is what a step hands to the later ones.
\<close>

record deploy_ctx =
  ctx_oacID :: string
  ctx_distributionID :: string

type_synonym 'w step = "deploy_ctx \<Rightarrow> 'w state \<Rightarrow> (err + deploy_ctx) \<times> 'w state"

definition unit_step :: "('w state \<Rightarrow> (err + unit) \<times> 'w state) \<Rightarrow> 'w step" where
  "unit_step f c s = (case f s of (Inl e, s') \<Rightarrow> (Inl e, s') | (Inr u, s') \<Rightarrow> (Inr c, s'))"

definition oac_step :: "'w clients \<Rightarrow> PreviewManager \<Rightarrow> 'w step" where
  "oac_step env pm c s =
     (case getOrCreateOAC env pm s of
        (Inl e, s') \<Rightarrow> (Inl e, s')
      | (Inr i, s') \<Rightarrow> (Inr (c \<lparr> ctx_oacID := i \<rparr>), s'))"

definition distribution_step :: "'w clients \<Rightarrow> PreviewManager \<Rightarrow> 'w step" where
  "distribution_step env pm c s =
     (case getOrCreateCloudFrontDistribution env pm (ctx_oacID c) s of
        (Inl e, s') \<Rightarrow> (Inl e, s')
      | (Inr i, s') \<Rightarrow> (Inr (c \<lparr> ctx_distributionID := i \<rparr>), s'))"

definition deploy_steps :: "'w clients \<Rightarrow> PreviewManager \<Rightarrow> (string \<times> 'w step) list" where
  "deploy_steps env pm =
     [(''failed to create S3 bucket'', unit_step (createS3Bucket env pm)),
      (''failed to sync files to S3'', unit_step (syncFilesToS3 env pm)),
      (''failed to manage OAC'', oac_step env pm),
      (''failed to manage CloudFront distribution'', distribution_step env pm),
      (''failed to set bucket policy'',
         \<lambda>c. unit_step (setBucketPolicyForOAC env pm (ctx_distributionID c)) c),
      (''failed to invalidate CloudFront cache'',
         \<lambda>c. unit_step (invalidateCloudFrontCache env pm (ctx_distributionID c)) c),
      (''failed to update Route53'',
         \<lambda>c. unit_step (updateRoute53 env pm (ctx_distributionID c)) c)]"

fun run_steps :: "(string \<times> 'w step) list \<Rightarrow> deploy_ctx \<Rightarrow> 'w state \<Rightarrow> (err + deploy_ctx) \<times> 'w state" where
  "run_steps [] c s = (Inr c, s)"
| "run_steps ((msg, f) # rest) c s =
     (case f c s of
        (Inl e, s') \<Rightarrow> (Inl (wrap msg e), s')
      | (Inr c', s') \<Rightarrow> run_steps rest c' s')"

definition no_ctx :: deploy_ctx where
  "no_ctx = \<lparr> ctx_oacID = [], ctx_distributionID = [] \<rparr>"

definition notify :: "'w clients \<Rightarrow> PreviewManager \<Rightarrow> 'w state \<Rightarrow> 'w state" where
  "notify env pm s =
     (case postGitHubComment env pm s of
        (Inl e, s') \<Rightarrow> Println (''Warning: Failed to post GitHub comment: '' @ e) s'
      | (Inr u, s') \<Rightarrow> s')"

definition Deploy_spec :: "'w clients \<Rightarrow> PreviewManager \<Rightarrow> 'w state \<Rightarrow> (err + unit) \<times> 'w state" where
  "Deploy_spec env pm s0 =
     (case run_steps (deploy_steps env pm) no_ctx (Println ''Starting deployment...'' s0) of
        (Inl e, s') \<Rightarrow> (Inl e, s')
      | (Inr c, s') \<Rightarrow> (Inr (), notify env pm s'))"

text \<open>The access-control entities cannot be listed.\<close>

definition oac_denied_account :: "nat clients" where
  "oac_denied_account = deployed_account \<lparr> cf_ListOriginAccessControls := failing ''AccessDenied'' \<rparr>"

text \<open>The comment on the pull request is refused.\<close>

definition comment_denied_account :: "nat clients" where
  "comment_denied_account =
     deployed_account \<lparr> gh_CreateComment := (\<lambda>ownr repo n body. failing ''403 Forbidden'') \<rparr>"




section \<open>Verified properties\<close>

subsection \<open>Environment identity\<close>

lemma digit_char_inj: "d < 10 \<Longrightarrow> e < 10 \<Longrightarrow> digit_char d = digit_char e \<Longrightarrow> d = e"
proof -
  assume a: "d < 10" "e < 10" "digit_char d = digit_char e"
  have "distinct ''0123456789''" by simp
  with a show ?thesis
    by (simp add: digit_char_def nth_eq_iff_index_eq)
qed

lemma digit_char_not_minus: "d < 10 \<Longrightarrow> digit_char d \<noteq> CHR ''-''"
proof -
  assume "d < 10"
  then have "digit_char d \<in> set ''0123456789''"
    unfolding digit_char_def by (intro nth_mem) simp
  then show ?thesis by auto
qed

lemma utoa_not_Nil: "utoa n \<noteq> []"
  by (subst utoa.simps) simp

lemma utoa_no_minus: "CHR ''-'' \<notin> set (utoa n)"
proof (induction n rule: utoa.induct)
  case (1 n)
  show ?case
  proof (cases "n < 10")
    case True
    then show ?thesis using digit_char_not_minus [of n] by (subst utoa.simps) auto
  next
    case False
    then show ?thesis using 1 digit_char_not_minus [of "n mod 10"]
      by (subst utoa.simps) auto
  qed
qed

lemma utoa_inj: "utoa n = utoa m \<Longrightarrow> n = m"
proof (induction n arbitrary: m rule: utoa.induct)
  case (1 n)
  show ?case
  proof (cases "n < 10")
    case True
    show ?thesis
    proof (cases "m < 10")
      case mT: True
      with True 1(2) show ?thesis
        by (simp add: utoa.simps [of n] utoa.simps [of m] digit_char_inj)
    next
      case mF: False
      with True 1(2) have "[digit_char n] = utoa (m div 10) @ [digit_char (m mod 10)]"
        by (simp add: utoa.simps [of n] utoa.simps [of m])
      then have "utoa (m div 10) = []" by simp
      then show ?thesis by (simp add: utoa_not_Nil)
    qed
  next
    case False
    show ?thesis
    proof (cases "m < 10")
      case mT: True
      with False 1(2) have "utoa (n div 10) @ [digit_char (n mod 10)] = [digit_char m]"
        by (simp add: utoa.simps [of n] utoa.simps [of m])
      then have "utoa (n div 10) = []" by simp
      then show ?thesis by (simp add: utoa_not_Nil)
    next
      case mF: False
      with False 1(2) have e: "utoa (n div 10) = utoa (m div 10)"
        and d: "digit_char (n mod 10) = digit_char (m mod 10)"
        by (simp_all add: utoa.simps [of n] utoa.simps [of m])
      from 1(1) [OF False e] have "n div 10 = m div 10" .
      moreover from d have "n mod 10 = m mod 10" by (simp add: digit_char_inj)
      ultimately have "10 * (n div 10) + n mod 10 = 10 * (m div 10) + m mod 10" by simp
      then show ?thesis by simp
    qed
  qed
qed

lemma sep_unique:
  "CHR ''-'' \<notin> set xs \<Longrightarrow> CHR ''-'' \<notin> set ys \<Longrightarrow> xs @ CHR ''-'' # a = ys @ CHR ''-'' # b
   \<Longrightarrow> xs = ys \<and> a = b"
proof (induction xs arbitrary: ys)
  case Nil
  then show ?case by (cases ys) auto
next
  case (Cons x xs)
  then show ?case by (cases ys) auto
qed

lemma fmt_d_sep_inj:
  assumes "fmt_d i @ CHR ''-'' # a = fmt_d j @ CHR ''-'' # b"
  shows "i = j \<and> a = b"
proof -
  have hd_digit: "\<And>n rest. utoa n @ rest \<noteq> CHR ''-'' # rest'" for rest'
  proof
    fix n rest assume h: "utoa n @ rest = CHR ''-'' # rest'"
    obtain c cs where u: "utoa n = c # cs" using utoa_not_Nil [of n] by (cases "utoa n") auto
    with h have "c = CHR ''-''" by simp
    with u utoa_no_minus [of n] show False by auto
  qed
  consider (nn) "i < 0" "j < 0" | (np) "i < 0" "\<not> j < 0" | (pn) "\<not> i < 0" "j < 0" | (pp) "\<not> i < 0" "\<not> j < 0"
    by blast
  then show ?thesis
  proof cases
    case nn
    with assms have "utoa (nat (- i)) @ CHR ''-'' # a = utoa (nat (- j)) @ CHR ''-'' # b"
      by (simp add: fmt_d_def)
    then have "utoa (nat (- i)) = utoa (nat (- j)) \<and> a = b"
      by (rule sep_unique [OF utoa_no_minus utoa_no_minus])
    with nn show ?thesis using utoa_inj [of "nat (- i)" "nat (- j)"] by auto
  next
    case np
    with assms have "utoa (nat j) @ CHR ''-'' # b = CHR ''-'' # utoa (nat (- i)) @ CHR ''-'' # a"
      by (simp add: fmt_d_def)
    with hd_digit show ?thesis by blast
  next
    case pn
    with assms have "utoa (nat i) @ CHR ''-'' # a = CHR ''-'' # utoa (nat (- j)) @ CHR ''-'' # b"
      by (simp add: fmt_d_def)
    with hd_digit show ?thesis by blast
  next
    case pp
    with assms have "utoa (nat i) @ CHR ''-'' # a = utoa (nat j) @ CHR ''-'' # b"
      by (simp add: fmt_d_def)
    then have "utoa (nat i) = utoa (nat j) \<and> a = b"
      by (rule sep_unique [OF utoa_no_minus utoa_no_minus])
    with pp show ?thesis using utoa_inj [of "nat i" "nat j"] by auto
  qed
qed

lemma fmt_d_examples: "fmt_d 42 = ''42'' \<and> fmt_d 0 = ''0'' \<and> fmt_d (- 7) = ''-7'' \<and> fmt_d 1234567 = ''1234567''"
  by (simp add: fmt_d_def utoa.simps digit_char_def)

text \<open>
  Claim C8. The identity of an environment is computed from the pull-request number and
  the application name alone: the bucket name is \<open>pr-{key}-{app}\<close>, the hostname is the
  bucket name, a dot and the base domain, and two configurations get the same bucket name
  exactly when they agree on both the number and the application name.
\<close>

theorem environment_identity:
  "bucketName (main_PreviewManager c gh) = ''pr-'' @ fmt_d (PRNumber c) @ ''-'' @ AppName c
   \<and> fullDomain (main_PreviewManager c gh) = bucketName (main_PreviewManager c gh) @ ''.'' @ BaseDomain c
   \<and> ((bucketName (main_PreviewManager c gh) = bucketName (main_PreviewManager c' gh'))
        = (PRNumber c = PRNumber c' \<and> AppName c = AppName c'))"
  using fmt_d_sep_inj [of "PRNumber c" "AppName c" "PRNumber c'" "AppName c'"]
  by (auto simp add: main_PreviewManager_def main_bucketName_def)

subsection \<open>Content types\<close>

lemma ext_rev_dot:
  "CHR ''.'' \<notin> set xs \<Longrightarrow> CHR ''/'' \<notin> set xs \<Longrightarrow>
   ext_rev (xs @ CHR ''.'' # ys) acc = CHR ''.'' # rev xs @ acc"
  by (induction xs arbitrary: acc) auto

lemma Ext_suffix:
  "CHR ''.'' \<notin> set e \<Longrightarrow> CHR ''/'' \<notin> set e \<Longrightarrow> Ext (p @ CHR ''.'' # e) = CHR ''.'' # e"
  using ext_rev_dot [of "rev e" "rev p" "[]"] by (simp add: Ext_def)

lemma lower_byte_cases: "lower_byte c = d \<Longrightarrow> c = d \<or> (c, d) \<in> set upper_lower"
  unfolding lower_byte_def by (auto split: option.splits dest: map_of_SomeD)

lemma upper_plain: "(c, d) \<in> set upper_lower \<Longrightarrow> is_ascii c \<and> c \<noteq> CHR ''.'' \<and> c \<noteq> CHR ''/''"
  by (auto simp add: upper_lower_def is_ascii_def)

lemma lower_byte_letter:
  assumes "lower_byte c = d" "d \<in> set ''htmljs''"
  shows "is_ascii c \<and> c \<noteq> CHR ''.'' \<and> c \<noteq> CHR ''/''"
proof -
  from lower_byte_cases [OF assms(1)] show ?thesis
  proof
    assume "c = d"
    with assms(2) show ?thesis by (auto simp add: is_ascii_def)
  next
    assume "(c, d) \<in> set upper_lower"
    then show ?thesis by (rule upper_plain)
  qed
qed

lemma lowered_letters:
  assumes "map lower_byte e = l" "set l \<subseteq> set ''htmljs''"
  shows "list_all is_ascii e \<and> CHR ''.'' \<notin> set e \<and> CHR ''/'' \<notin> set e"
proof -
  have "\<forall>c \<in> set e. is_ascii c \<and> c \<noteq> CHR ''.'' \<and> c \<noteq> CHR ''/''"
  proof
    fix c assume "c \<in> set e"
    then have "lower_byte c \<in> set l" using assms(1) by auto
    then have "lower_byte c \<in> set ''htmljs''" using assms(2) by blast
    then show "is_ascii c \<and> c \<noteq> CHR ''.'' \<and> c \<noteq> CHR ''/''"
      using lower_byte_letter [of c "lower_byte c"] by blast
  qed
  then show ?thesis by (auto simp add: list_all_iff)
qed

lemma getContentType_of_suffix:
  assumes "map lower_byte e = l" "set l \<subseteq> set ''htmljs''"
  shows "getContentType uni (p @ ''.'' @ e) =
         (case map_of contentTypes (CHR ''.'' # l) of Some ct \<Rightarrow> ct | None \<Rightarrow> ''application/octet-stream'')"
proof -
  from lowered_letters [OF assms] have a: "list_all is_ascii e" and d: "CHR ''.'' \<notin> set e" "CHR ''/'' \<notin> set e"
    by auto
  have "Ext (p @ ''.'' @ e) = CHR ''.'' # e" using Ext_suffix [OF d] by simp
  moreover have "ToLower uni (CHR ''.'' # e) = CHR ''.'' # l"
    using a assms(1) by (simp add: ToLower_def is_ascii_def lower_byte_def upper_lower_def)
  ultimately show ?thesis by (simp add: getContentType_def)
qed

text \<open>
  Claim C9. The content type is an exact lookup of the lowercased extension in the fixed
  table: a file name ending in \<open>.html\<close> in any letter case gives \<open>text/html\<close>, one
  ending in \<open>.js\<close> in any letter case gives \<open>application/javascript\<close>, and an extension that
  is not a key of the table gives \<open>application/octet-stream\<close>.
\<close>

theorem getContentType_lookup:
  "getContentType uni f =
     (case map_of contentTypes (ToLower uni (Ext f)) of
        Some ct \<Rightarrow> ct | None \<Rightarrow> ''application/octet-stream'')
   \<and> (\<forall>p e. map lower_byte e = ''html'' \<longrightarrow> getContentType uni (p @ ''.'' @ e) = ''text/html'')
   \<and> (\<forall>p e. map lower_byte e = ''js'' \<longrightarrow> getContentType uni (p @ ''.'' @ e) = ''application/javascript'')
   \<and> (ToLower uni (Ext f) \<notin> fst ` set contentTypes \<longrightarrow> getContentType uni f = ''application/octet-stream'')"
proof (intro conjI allI impI)
  show "getContentType uni f =
     (case map_of contentTypes (ToLower uni (Ext f)) of
        Some ct \<Rightarrow> ct | None \<Rightarrow> ''application/octet-stream'')"
    by (simp add: getContentType_def)
next
  fix p e assume "map lower_byte e = ''html''"
  then show "getContentType uni (p @ ''.'' @ e) = ''text/html''"
    using getContentType_of_suffix [of e "''html''" uni p] by (simp add: contentTypes_def)
next
  fix p e assume "map lower_byte e = ''js''"
  then show "getContentType uni (p @ ''.'' @ e) = ''application/javascript''"
    using getContentType_of_suffix [of e "''js''" uni p] by (simp add: contentTypes_def)
next
  assume "ToLower uni (Ext f) \<notin> fst ` set contentTypes"
  then have "map_of contentTypes (ToLower uni (Ext f)) = None"
    by (simp add: map_of_eq_None_iff)
  then show "getContentType uni f = ''application/octet-stream''"
    by (simp add: getContentType_def)
qed

theorem getContentType_lookup_witness:
  "map lower_byte ''HtMl'' = ''html'' \<and> getContentType id (''dist/v1.2/INDEX'' @ ''.'' @ ''HtMl'') = ''text/html''
   \<and> map lower_byte ''JS'' = ''js'' \<and> getContentType id (''app'' @ ''.'' @ ''JS'') = ''application/javascript''
   \<and> ToLower id (Ext ''data.unknownext'') \<notin> fst ` set contentTypes
   \<and> getContentType id ''data.unknownext'' = ''application/octet-stream''"
proof -
  have h: "map lower_byte ''HtMl'' = ''html''" by (simp add: lower_byte_def upper_lower_def)
  have j: "map lower_byte ''JS'' = ''js''" by (simp add: lower_byte_def upper_lower_def)
  have u: "ToLower id (Ext ''data.unknownext'') \<notin> fst ` set contentTypes"
    by (simp add: ToLower_def Ext_def is_ascii_def lower_byte_def upper_lower_def contentTypes_def)
  note L = getContentType_lookup [of id "''data.unknownext''"]
  note a = L [THEN conjunct2, THEN conjunct1, rule_format, OF h, of "''dist/v1.2/INDEX''"]
  note b = L [THEN conjunct2, THEN conjunct2, THEN conjunct1, rule_format, OF j, of "''app''"]
  note c = L [THEN conjunct2, THEN conjunct2, THEN conjunct2, rule_format, OF u]
  from a b c h j u show ?thesis by (intro conjI)
qed

subsection \<open>Events of a run\<close>

lemma calls_append [simp]: "calls (xs @ ys) = calls xs @ calls ys"
  by (induction xs rule: calls.induct) auto

lemma operations_simps [simp]:
  "operations [] = {}"
  "operations (Print l # es) = operations es"
  "operations (Call c # es) = insert (operation_of c) (operations es)"
  "operations (xs @ ys) = operations xs \<union> operations ys"
  by (auto simp add: operations_def)

lemma world_Println [simp]: "world (Println l s) = world s"
  by (simp add: Println_def)

lemma events_Println [simp]: "events (Println l s) = events s @ [Print l]"
  by (simp add: Println_def)

lemma request_eq:
  "request mk f s = (r, s') \<longleftrightarrow>
     (\<exists>w'. f (world s) = (r, w') \<and> s' = \<lparr>world = w', events = events s @ [Call (mk r)]\<rparr>)"
  by (auto simp add: request_def split: prod.splits)


lemmas demo_defs =
  demo_pm_def main_PreviewManager_def main_bucketName_def demo_cfg_def init_def request_def
  answer_def ok_def failing_def Println_def wrap_def fmt_d_def utoa.simps digit_char_def

subsection \<open>Hosted zone lookup\<close>

text \<open>
  Claim C3. \<open>getHostedZoneID\<close> is said to return the id of the hosted zone named after the
  base domain, to return an error whenever no such zone exists, and never to return the
  id of a zone with another name. The function returns the id of the first zone of the
  answer without reading its name: when the base domain \<open>example.test\<close> has no zone and
  the provider answers with the next zone \<open>example.zone.\<close>, the id of that zone is
  returned and no error is raised.
\<close>

theorem getHostedZoneID_unchecked_name:
  "getHostedZoneID other_zone_account demo_pm (init 0) =
     (Inr ''Z2OTHER'',
      \<lparr> world = 1,
        events = [Call (ListHostedZonesByName ''example.test''
                   (Inr [\<lparr> hz_Id = ''/hostedzone/Z2OTHER'', hz_Name = ''example.zone.'' \<rparr>]))] \<rparr>)"
  by (simp add: getHostedZoneID_def other_zone_account_def deployed_account_def demo_defs Split_slash_def)

subsection \<open>Cleanup when the distributions cannot be listed\<close>

lemma findCloudFrontDistribution_list_error:
  "cf_ListDistributions env (world s) = (Inl e, w') \<Longrightarrow>
   findCloudFrontDistribution env pm s =
     (Inl (wrap ''failed to list distributions'' e),
      \<lparr>world = w', events = events s @ [Call (ListDistributions (Inl e))]\<rparr>)"
  by (simp add: findCloudFrontDistribution_def request_def)

text \<open>
  Claim C2, as amended. When the listing of the distributions fails, \<open>Cleanup\<close> ends at
  once with the error \<open>failed to find distribution: failed to list distributions: ...\<close>;
  the failed listing is the only request of the run, so no later cleanup step is started.
\<close>

theorem Cleanup_list_failure_is_fatal:
  "cf_ListDistributions env w = (Inl e, w') \<Longrightarrow>
   Cleanup env pm (init w) =
     Some (Inl (wrap ''failed to find distribution'' (wrap ''failed to list distributions'' e)),
           \<lparr> world = w',
             events = [Print ''Starting cleanup...'', Call (ListDistributions (Inl e))] \<rparr>)"
  by (simp add: Cleanup_def findCloudFrontDistribution_list_error init_def)

theorem Cleanup_list_failure_is_fatal_witness:
  "cf_ListDistributions unlistable_account 0 = (Inl ''AccessDenied'', 1) \<and>
   Cleanup unlistable_account demo_pm (init 0) =
     Some (Inl (wrap ''failed to find distribution'' (wrap ''failed to list distributions'' ''AccessDenied'')),
           \<lparr> world = 1,
             events = [Print ''Starting cleanup...'', Call (ListDistributions (Inl ''AccessDenied''))] \<rparr>)"
proof -
  have h: "cf_ListDistributions unlistable_account 0 = (Inl ''AccessDenied'', 1)"
    by (simp add: unlistable_account_def failing_def)
  from h Cleanup_list_failure_is_fatal [OF h, of demo_pm] show ?thesis by (intro conjI)
qed

text \<open>
  Claim C2 as stated (the failure is logged and the run goes on to the remaining steps)
  does not hold: in the account whose distributions cannot be listed the run returns an
  error, and its events end with the failed listing.
\<close>

theorem Cleanup_list_failure_counterexample:
  "Cleanup unlistable_account demo_pm (init 0) =
     Some (Inl ''failed to find distribution: failed to list distributions: AccessDenied'',
           \<lparr> world = 1,
             events = [Print ''Starting cleanup...'', Call (ListDistributions (Inl ''AccessDenied''))] \<rparr>)"
  by (simp add: Cleanup_def findCloudFrontDistribution_def unlistable_account_def demo_defs)

subsection \<open>Cleanup: requests of the steps\<close>

lemma getHostedZoneID_operations:
  "getHostedZoneID env pm s = (r, s') \<Longrightarrow>
   operations (events s') = insert OpListHostedZonesByName (operations (events s))"
  by (auto simp add: getHostedZoneID_def request_eq split: prod.splits sum.splits list.splits)

lemma findCloudFrontDistribution_operations:
  "findCloudFrontDistribution env pm s = (r, s') \<Longrightarrow>
   operations (events s') = insert OpListDistributions (operations (events s))"
  by (auto simp add: findCloudFrontDistribution_def request_eq
      split: prod.splits sum.splits option.splits)

lemma deleteCloudFrontDistribution_operations:
  "deleteCloudFrontDistribution env pm i s = (r, s') \<Longrightarrow>
   operations (events s') \<subseteq> operations (events s) \<union>
     {OpGetDistributionConfig, OpUpdateDistribution, OpWaitDistributionDeployed, OpDeleteDistribution}"
  by (auto simp add: deleteCloudFrontDistribution_def request_eq Let_def
      split: prod.splits sum.splits if_splits)

lemma deleteRoute53Record_operations:
  "deleteRoute53Record env pm s = (r, s') \<Longrightarrow>
   operations (events s') \<subseteq> operations (events s) \<union>
     {OpListHostedZonesByName, OpListResourceRecordSets, OpDeleteRecord}"
  by (auto simp add: deleteRoute53Record_def request_eq Let_def
      dest!: getHostedZoneID_operations split: prod.splits sum.splits list.splits if_splits)

lemma postCleanupGitHubComment_operations:
  "postCleanupGitHubComment env pm s = (r, s') \<Longrightarrow>
   operations (events s') \<subseteq> insert OpCreateComment (operations (events s))"
  by (auto simp add: postCleanupGitHubComment_def request_eq Let_def
      split: prod.splits sum.splits option.splits)

lemma deleteS3Bucket_absent:
  "s3_HeadBucket env (bucketName pm) (world s) = (Inl e, w') \<Longrightarrow>
   deleteS3Bucket env pm s =
     Some (Inr (),
           \<lparr> world = w',
             events = events s @
               [Print (''Deleting S3 bucket: '' @ bucketName pm),
                Call (HeadBucket (bucketName pm) (Inl e)),
                Print ''  Bucket does not exist''] \<rparr>)"
  by (simp add: deleteS3Bucket_def request_def Println_def)

text \<open>
  Every run of \<open>Cleanup\<close> in an account whose bucket existence check fails: the
  requests it may send, and its result once the check has been made.
\<close>

lemma Cleanup_cases:
  assumes head: "\<forall>w. \<exists>e w'. s3_HeadBucket env (bucketName pm) w = (Inl e, w')"
  shows "\<exists>r s'. Cleanup env pm s = Some (r, s') \<and>
          operations (events s') \<subseteq> operations (events s) \<union>
            {OpListDistributions, OpGetDistributionConfig, OpUpdateDistribution,
             OpWaitDistributionDeployed, OpDeleteDistribution, OpListHostedZonesByName,
             OpListResourceRecordSets, OpDeleteRecord, OpHeadBucket, OpCreateComment} \<and>
          (OpHeadBucket \<in> operations (events s') \<longrightarrow> OpHeadBucket \<notin> operations (events s) \<longrightarrow> r = Inr ())"
proof -
  let ?s0 = "Println ''Starting cleanup...'' s"
  obtain r1 s1 where f: "findCloudFrontDistribution env pm ?s0 = (r1, s1)" by force
  note o1 = findCloudFrontDistribution_operations [OF f]
  show ?thesis
  proof (cases r1)
    case (Inl e)
    with f o1 show ?thesis by (auto simp add: Cleanup_def)
  next
    case (Inr i)
    obtain r2 s2 where d: "(if i \<noteq> []
             then (case deleteCloudFrontDistribution env pm i s1 of
                     (Inl e, s2) \<Rightarrow> (Inl (wrap ''failed to delete CloudFront distribution'' e), s2)
                   | (Inr u, s2) \<Rightarrow> (Inr (), s2))
             else (Inr (), Println ''  No CloudFront distribution found'' s1)) = (r2, s2)" by force
    have o2: "operations (events s2) \<subseteq> operations (events s1) \<union>
       {OpGetDistributionConfig, OpUpdateDistribution, OpWaitDistributionDeployed, OpDeleteDistribution}"
      using d by (auto split: if_splits prod.splits sum.splits dest!: deleteCloudFrontDistribution_operations)
    show ?thesis
    proof (cases r2)
      case (Inl e)
      with f Inr d o1 o2 show ?thesis by (auto simp add: Cleanup_def)
    next
      case r2: (Inr u)
      obtain r3 s3 where r: "deleteRoute53Record env pm s2 = (r3, s3)" by force
      note o3 = deleteRoute53Record_operations [OF r]
      define s4 where "s4 = (case r3 of Inl e \<Rightarrow> Println (''  Warning: Failed to delete Route53 record: '' @ e) s3 | Inr u \<Rightarrow> s3)"
      have o4: "operations (events s4) = operations (events s3)"
        by (simp add: s4_def split: sum.splits)
      from head obtain e w' where h: "s3_HeadBucket env (bucketName pm) (world s4) = (Inl e, w')" by blast
      note b = deleteS3Bucket_absent [OF h]
      obtain s5 where s5: "deleteS3Bucket env pm s4 = Some (Inr (), s5)"
        and o5: "operations (events s5) = insert OpHeadBucket (operations (events s4))"
        using b by auto
      obtain r6 s6 where p: "postCleanupGitHubComment env pm s5 = (r6, s6)" by force
      note o6 = postCleanupGitHubComment_operations [OF p]
      have "Cleanup env pm s = Some (Inr (), case r6 of Inl e \<Rightarrow> Println (''Warning: Failed to post GitHub comment: '' @ e) s6 | Inr u \<Rightarrow> s6)"
        using f Inr d r2 r s5 p
        by (simp add: Cleanup_def s4_def split: sum.splits)
      moreover have "operations (events (case r6 of Inl e \<Rightarrow> Println (''Warning: Failed to post GitHub comment: '' @ e) s6 | Inr u \<Rightarrow> s6))
          = operations (events s6)"
        by (simp split: sum.splits)
      ultimately show ?thesis using o1 o2 o3 o4 o5 o6 by auto
    qed
  qed
qed


text \<open>
  Claim C10. In \<open>deleteS3Bucket\<close> any error of the existence check \<open>HeadBucket\<close>, whatever
  its cause, is taken as the absence of the bucket: the step prints that the bucket does
  not exist and returns success after that single request. In an account where the
  check fails, every run of \<open>Cleanup\<close> that reaches the check returns success, and no
  run lists objects, deletes objects or deletes the bucket.
\<close>

theorem deleteS3Bucket_any_head_error:
  "(s3_HeadBucket env (bucketName pm) w = (Inl e, w') \<longrightarrow>
      deleteS3Bucket env pm (init w) =
        Some (Inr (),
              \<lparr> world = w',
                events = [Print (''Deleting S3 bucket: '' @ bucketName pm),
                          Call (HeadBucket (bucketName pm) (Inl e)),
                          Print ''  Bucket does not exist''] \<rparr>))
   \<and> ((\<forall>v. \<exists>e v'. s3_HeadBucket env (bucketName pm) v = (Inl e, v')) \<longrightarrow>
      (\<exists>r s'. Cleanup env pm (init w) = Some (r, s') \<and>
         (OpHeadBucket \<in> operations (events s') \<longrightarrow> r = Inr ()) \<and>
         operations (events s') \<inter> {OpListObjectsV2, OpDeleteObjects, OpDeleteBucket} = {}))"
proof (intro conjI impI)
  assume "s3_HeadBucket env (bucketName pm) w = (Inl e, w')"
  then show "deleteS3Bucket env pm (init w) =
        Some (Inr (),
              \<lparr> world = w',
                events = [Print (''Deleting S3 bucket: '' @ bucketName pm),
                          Call (HeadBucket (bucketName pm) (Inl e)),
                          Print ''  Bucket does not exist''] \<rparr>)"
    using deleteS3Bucket_absent [of env pm "init w" e w'] by (simp add: init_def)
next
  assume "\<forall>v. \<exists>e v'. s3_HeadBucket env (bucketName pm) v = (Inl e, v')"
  from Cleanup_cases [OF this, of "init w"]
  show "\<exists>r s'. Cleanup env pm (init w) = Some (r, s') \<and>
         (OpHeadBucket \<in> operations (events s') \<longrightarrow> r = Inr ()) \<and>
         operations (events s') \<inter> {OpListObjectsV2, OpDeleteObjects, OpDeleteBucket} = {}"
    by (auto simp add: init_def)
qed

theorem deleteS3Bucket_any_head_error_witness:
  "s3_HeadBucket flaky_head_account (bucketName demo_pm) 0 = (Inl ''RequestTimeout'', 1)
   \<and> deleteS3Bucket flaky_head_account demo_pm (init 0) =
        Some (Inr (),
              \<lparr> world = 1,
                events = [Print (''Deleting S3 bucket: '' @ bucketName demo_pm),
                          Call (HeadBucket (bucketName demo_pm) (Inl ''RequestTimeout'')),
                          Print ''  Bucket does not exist''] \<rparr>)
   \<and> (\<forall>v. \<exists>e v'. s3_HeadBucket flaky_head_account (bucketName demo_pm) v = (Inl e, v'))
   \<and> (\<exists>r s'. Cleanup flaky_head_account demo_pm (init 0) = Some (r, s') \<and>
         (OpHeadBucket \<in> operations (events s') \<longrightarrow> r = Inr ()) \<and>
         operations (events s') \<inter> {OpListObjectsV2, OpDeleteObjects, OpDeleteBucket} = {})
   \<and> map_option (\<lambda>(r, s'). (r, OpHeadBucket \<in> operations (events s')))
         (Cleanup flaky_head_account demo_pm (init 0)) = Some (Inr (), True)"
proof -
  have h1: "s3_HeadBucket flaky_head_account (bucketName demo_pm) 0 = (Inl ''RequestTimeout'', 1)"
    by (simp add: flaky_head_account_def failing_def)
  have h2: "\<forall>v. \<exists>e v'. s3_HeadBucket flaky_head_account (bucketName demo_pm) v = (Inl e, v')"
    by (simp add: flaky_head_account_def failing_def)
  note T = deleteS3Bucket_any_head_error [of flaky_head_account demo_pm 0 "''RequestTimeout''" 1]
  note c1 = T [THEN conjunct1, THEN mp, OF h1]
  note c2 = T [THEN conjunct2, THEN mp, OF h2]
  have run: "map_option (\<lambda>(r, s'). (r, OpHeadBucket \<in> operations (events s')))
         (Cleanup flaky_head_account demo_pm (init 0)) = Some (Inr (), True)"
    by (simp add: Cleanup_def findCloudFrontDistribution_def hasAlias_def
        deleteCloudFrontDistribution_def deleteRoute53Record_def getHostedZoneID_def
        deleteS3Bucket_def postCleanupGitHubComment_def Split_slash_def
        flaky_head_account_def deployed_account_def demo_defs demo_config_def)
  from h1 c1 h2 c2 run show ?thesis by (intro conjI)
qed

text \<open>
  Claim C7. In an account with no distribution carrying the hostname as alias, with no
  hosted zone for the base domain or no record of the hostname in it, and with no bucket
  of the derived name, \<open>Cleanup\<close> returns success, and it sends only the lookups and the
  notification.
\<close>

theorem Cleanup_nothing_to_remove:
  assumes D: "\<forall>v. \<exists>l v'. cf_ListDistributions env v = (Inr l, v') \<and>
                (\<forall>items. l = Some items \<longrightarrow> \<not> list_ex (hasAlias (fullDomain pm)) items)"
    and Z: "(\<forall>v. \<exists>v'. r53_ListHostedZonesByName env (BaseDomain (cfg pm)) v = (Inr [], v'))
          \<or> ((\<forall>v. \<exists>zs v'. r53_ListHostedZonesByName env (BaseDomain (cfg pm)) v = (Inr zs, v'))
             \<and> (\<forall>z v. \<exists>rs v'. r53_ListResourceRecordSets env z (fullDomain pm) ''CNAME'' 1 v = (Inr rs, v')
                    \<and> (\<forall>r rest. rs = r # rest \<longrightarrow> rrs_Name r \<noteq> fullDomain pm @ ''.'')))"
    and B: "\<forall>v. \<exists>e v'. s3_HeadBucket env (bucketName pm) v = (Inl e, v')"
  shows "\<exists>s'. Cleanup env pm (init w) = Some (Inr (), s') \<and>
           operations (events s') \<subseteq>
             {OpListDistributions, OpListHostedZonesByName, OpListResourceRecordSets,
              OpHeadBucket, OpCreateComment}"
proof -
  let ?s0 = "Println ''Starting cleanup...'' (init w)"
  from D obtain l v1 where l: "cf_ListDistributions env (world ?s0) = (Inr l, v1)"
    and none: "\<forall>items. l = Some items \<longrightarrow> \<not> list_ex (hasAlias (fullDomain pm)) items" by blast
  have nf: "\<And>items. l = Some items \<Longrightarrow> find (hasAlias (fullDomain pm)) items = None"
    using none by (auto simp add: find_None_iff list_ex_iff)
  obtain s1 where f: "findCloudFrontDistribution env pm ?s0 = (Inr [], s1)"
    using l nf by (cases l) (auto simp add: findCloudFrontDistribution_def request_def)
  note o1 = findCloudFrontDistribution_operations [OF f]
  let ?s2 = "Println ''  No CloudFront distribution found'' s1"
  obtain r3 s3 where r: "deleteRoute53Record env pm ?s2 = (r3, s3)" by force
  have o3: "operations (events s3) \<subseteq> operations (events ?s2) \<union>
       {OpListHostedZonesByName, OpListResourceRecordSets}"
    using Z
  proof
    assume "\<forall>v. \<exists>v'. r53_ListHostedZonesByName env (BaseDomain (cfg pm)) v = (Inr [], v')"
    then obtain v' where "r53_ListHostedZonesByName env (BaseDomain (cfg pm)) (world s1) = (Inr [], v')"
      by blast
    with r show ?thesis
      by (auto simp add: deleteRoute53Record_def getHostedZoneID_def request_def)
  next
    assume a: "(\<forall>v. \<exists>zs v'. r53_ListHostedZonesByName env (BaseDomain (cfg pm)) v = (Inr zs, v'))
             \<and> (\<forall>z v. \<exists>rs v'. r53_ListResourceRecordSets env z (fullDomain pm) ''CNAME'' 1 v = (Inr rs, v')
                    \<and> (\<forall>r rest. rs = r # rest \<longrightarrow> rrs_Name r \<noteq> fullDomain pm @ ''.''))"
    then obtain zs v' where z: "r53_ListHostedZonesByName env (BaseDomain (cfg pm)) (world s1) = (Inr zs, v')"
      by blast
    show ?thesis
    proof (cases zs)
      case Nil
      with z r show ?thesis
        by (auto simp add: deleteRoute53Record_def getHostedZoneID_def request_def)
    next
      case (Cons zone others)
      from a obtain rs v'' where
        rs: "r53_ListResourceRecordSets env (last (Split_slash (hz_Id zone))) (fullDomain pm) ''CNAME'' 1 v' = (Inr rs, v'')"
        and nm: "\<forall>r rest. rs = r # rest \<longrightarrow> rrs_Name r \<noteq> fullDomain pm @ ''.''"
        by blast
      with z r Cons show ?thesis
        by (cases rs) (auto simp add: deleteRoute53Record_def getHostedZoneID_def request_def)
    qed
  qed
  define s4 where "s4 = (case r3 of Inl e \<Rightarrow> Println (''  Warning: Failed to delete Route53 record: '' @ e) s3 | Inr u \<Rightarrow> s3)"
  have o4: "operations (events s4) = operations (events s3)"
    by (simp add: s4_def split: sum.splits)
  from B obtain e w' where h: "s3_HeadBucket env (bucketName pm) (world s4) = (Inl e, w')" by blast
  note b = deleteS3Bucket_absent [OF h]
  obtain s5 where s5: "deleteS3Bucket env pm s4 = Some (Inr (), s5)"
    and o5: "operations (events s5) = insert OpHeadBucket (operations (events s4))"
    using b by auto
  obtain r6 s6 where p: "postCleanupGitHubComment env pm s5 = (r6, s6)" by force
  note o6 = postCleanupGitHubComment_operations [OF p]
  let ?s7 = "case r6 of Inl e \<Rightarrow> Println (''Warning: Failed to post GitHub comment: '' @ e) s6 | Inr u \<Rightarrow> s6"
  have "Cleanup env pm (init w) = Some (Inr (), ?s7)"
    using f r s5 p by (simp add: Cleanup_def s4_def split: sum.splits)
  moreover have "operations (events ?s7) = operations (events s6)"
    by (simp split: sum.splits)
  moreover have "operations (events ?s0) = {}" by (simp add: init_def)
  ultimately show ?thesis using o1 o3 o4 o5 o6 by auto
qed

theorem Cleanup_nothing_to_remove_witness:
  "(\<forall>v. \<exists>l v'. cf_ListDistributions empty_account v = (Inr l, v') \<and>
                (\<forall>items. l = Some items \<longrightarrow> \<not> list_ex (hasAlias (fullDomain demo_pm)) items))
   \<and> (\<forall>v. \<exists>v'. r53_ListHostedZonesByName empty_account (BaseDomain (cfg demo_pm)) v = (Inr [], v'))
   \<and> (\<forall>v. \<exists>e v'. s3_HeadBucket empty_account (bucketName demo_pm) v = (Inl e, v'))
   \<and> (\<exists>s'. Cleanup empty_account demo_pm (init 0) = Some (Inr (), s') \<and>
           operations (events s') \<subseteq>
             {OpListDistributions, OpListHostedZonesByName, OpListResourceRecordSets,
              OpHeadBucket, OpCreateComment})"
proof -
  have D: "\<forall>v. \<exists>l v'. cf_ListDistributions empty_account v = (Inr l, v') \<and>
                (\<forall>items. l = Some items \<longrightarrow> \<not> list_ex (hasAlias (fullDomain demo_pm)) items)"
    by (simp add: empty_account_def answer_def)
  have Z: "\<forall>v. \<exists>v'. r53_ListHostedZonesByName empty_account (BaseDomain (cfg demo_pm)) v = (Inr [], v')"
    by (simp add: empty_account_def answer_def)
  have B: "\<forall>v. \<exists>e v'. s3_HeadBucket empty_account (bucketName demo_pm) v = (Inl e, v')"
    by (simp add: empty_account_def failing_def)
  from D Z B Cleanup_nothing_to_remove [OF D disjI1 [OF Z] B, of 0] show ?thesis by (intro conjI)
qed

subsection \<open>Deletion of the DNS record\<close>

text \<open>
  Claim C4, as amended. In every run of \<open>deleteRoute53Record\<close> a delete change is
  submitted only after a record listing whose first record is named after the hostname
  with a final dot, and it is submitted for that very record. When the zone lookup and
  the listing succeed and the listing is empty or starts with a record of another name,
  the step returns success and submits no delete. When the zone lookup fails, finds no
  zone, or the listing fails, the step returns that error and submits no delete.
\<close>

theorem deleteRoute53Record_guarded:
  assumes run: "deleteRoute53Record env pm (init w) = (r, s')"
  shows "dns_delete_guarded (fullDomain pm) None (calls (events s'))
   \<and> (\<forall>z zs v1 rs v2.
         r53_ListHostedZonesByName env (BaseDomain (cfg pm)) w = (Inr (z # zs), v1) \<and>
         r53_ListResourceRecordSets env (last (Split_slash (hz_Id z))) (fullDomain pm) ''CNAME'' 1 v1
           = (Inr rs, v2) \<and>
         (case rs of [] \<Rightarrow> True | first # rest \<Rightarrow> rrs_Name first \<noteq> fullDomain pm @ ''.'')
         \<longrightarrow> r = Inr () \<and> OpDeleteRecord \<notin> operations (events s'))
   \<and> (\<forall>e v1. r53_ListHostedZonesByName env (BaseDomain (cfg pm)) w = (Inl e, v1)
         \<longrightarrow> r = Inl (wrap ''failed to list hosted zones'' e) \<and> OpDeleteRecord \<notin> operations (events s'))
   \<and> (\<forall>v1. r53_ListHostedZonesByName env (BaseDomain (cfg pm)) w = (Inr [], v1)
         \<longrightarrow> r = Inl (''no hosted zone found for domain: '' @ BaseDomain (cfg pm))
             \<and> OpDeleteRecord \<notin> operations (events s'))
   \<and> (\<forall>z zs v1 e v2.
         r53_ListHostedZonesByName env (BaseDomain (cfg pm)) w = (Inr (z # zs), v1) \<and>
         r53_ListResourceRecordSets env (last (Split_slash (hz_Id z))) (fullDomain pm) ''CNAME'' 1 v1
           = (Inl e, v2)
         \<longrightarrow> r = Inl (wrap ''failed to list records'' e) \<and> OpDeleteRecord \<notin> operations (events s'))"
proof -
  note defs = deleteRoute53Record_def getHostedZoneID_def request_def init_def Println_def
  have g1: "dns_delete_guarded (fullDomain pm) None (calls (events s'))"
    using run by (auto simp add: defs split: prod.splits sum.splits list.splits if_splits)
  have g2: "\<forall>z zs v1 rs v2.
         r53_ListHostedZonesByName env (BaseDomain (cfg pm)) w = (Inr (z # zs), v1) \<and>
         r53_ListResourceRecordSets env (last (Split_slash (hz_Id z))) (fullDomain pm) ''CNAME'' 1 v1
           = (Inr rs, v2) \<and>
         (case rs of [] \<Rightarrow> True | first # rest \<Rightarrow> rrs_Name first \<noteq> fullDomain pm @ ''.'')
         \<longrightarrow> r = Inr () \<and> OpDeleteRecord \<notin> operations (events s')"
  proof (intro allI impI)
    fix z zs v1 rs v2
    assume a: "r53_ListHostedZonesByName env (BaseDomain (cfg pm)) w = (Inr (z # zs), v1) \<and>
         r53_ListResourceRecordSets env (last (Split_slash (hz_Id z))) (fullDomain pm) ''CNAME'' 1 v1
           = (Inr rs, v2) \<and>
         (case rs of [] \<Rightarrow> True | first # rest \<Rightarrow> rrs_Name first \<noteq> fullDomain pm @ ''.'')"
    show "r = Inr () \<and> OpDeleteRecord \<notin> operations (events s')"
      using run a by (cases rs) (auto simp add: defs)
  qed
  have g3: "\<forall>e v1. r53_ListHostedZonesByName env (BaseDomain (cfg pm)) w = (Inl e, v1)
         \<longrightarrow> r = Inl (wrap ''failed to list hosted zones'' e) \<and> OpDeleteRecord \<notin> operations (events s')"
    using run by (auto simp add: defs)
  have g4: "\<forall>v1. r53_ListHostedZonesByName env (BaseDomain (cfg pm)) w = (Inr [], v1)
         \<longrightarrow> r = Inl (''no hosted zone found for domain: '' @ BaseDomain (cfg pm))
             \<and> OpDeleteRecord \<notin> operations (events s')"
    using run by (auto simp add: defs)
  have g5: "\<forall>z zs v1 e v2.
         r53_ListHostedZonesByName env (BaseDomain (cfg pm)) w = (Inr (z # zs), v1) \<and>
         r53_ListResourceRecordSets env (last (Split_slash (hz_Id z))) (fullDomain pm) ''CNAME'' 1 v1
           = (Inl e, v2)
         \<longrightarrow> r = Inl (wrap ''failed to list records'' e) \<and> OpDeleteRecord \<notin> operations (events s')"
    using run by (auto simp add: defs)
  from g1 g2 g3 g4 g5 show ?thesis by (intro conjI)
qed

lemmas dns_defs =
  deleteRoute53Record_def getHostedZoneID_def Split_slash_def deployed_account_def demo_defs

theorem deleteRoute53Record_guarded_witness:
  "deleteRoute53Record foreign_record_account demo_pm (init 0) =
     (Inr (),
      \<lparr> world = 2,
        events =
          [Print ''Deleting Route53 DNS record...'',
           Call (ListHostedZonesByName ''example.test''
                  (Inr [\<lparr> hz_Id = ''/hostedzone/Z1'', hz_Name = ''example.test.'' \<rparr>])),
           Call (ListResourceRecordSets ''Z1'' ''pr-42-site.example.test'' ''CNAME'' 1
                  (Inr [\<lparr> rrs_Name = ''pr-43-site.example.test.'', rrs_Type = ''CNAME'',
                          rrs_TTL = Some 300, rrs_ResourceRecords = [''d222.cloudfront.net''] \<rparr>])),
           Print ''  No DNS record found''] \<rparr>)
   \<and> dns_delete_guarded (fullDomain demo_pm) None
        (calls (events (snd (deleteRoute53Record foreign_record_account demo_pm (init 0)))))
   \<and> OpDeleteRecord \<notin> operations (events (snd (deleteRoute53Record foreign_record_account demo_pm (init 0))))
   \<and> fst (deleteRoute53Record unreadable_records_account demo_pm (init 0))
        = Inl (wrap ''failed to list records'' ''Throttling'')
   \<and> OpDeleteRecord \<notin> operations (events (snd (deleteRoute53Record unreadable_records_account demo_pm (init 0))))"
proof -
  have run1: "deleteRoute53Record foreign_record_account demo_pm (init 0) =
     (Inr (),
      \<lparr> world = 2,
        events =
          [Print ''Deleting Route53 DNS record...'',
           Call (ListHostedZonesByName ''example.test''
                  (Inr [\<lparr> hz_Id = ''/hostedzone/Z1'', hz_Name = ''example.test.'' \<rparr>])),
           Call (ListResourceRecordSets ''Z1'' ''pr-42-site.example.test'' ''CNAME'' 1
                  (Inr [\<lparr> rrs_Name = ''pr-43-site.example.test.'', rrs_Type = ''CNAME'',
                          rrs_TTL = Some 300, rrs_ResourceRecords = [''d222.cloudfront.net''] \<rparr>])),
           Print ''  No DNS record found''] \<rparr>)"
    by (simp add: foreign_record_account_def dns_defs)
  obtain r2 s2 where run2: "deleteRoute53Record unreadable_records_account demo_pm (init 0) = (r2, s2)"
    by force
  have z: "r53_ListHostedZonesByName foreign_record_account (BaseDomain (cfg demo_pm)) 0
             = (Inr (\<lparr> hz_Id = ''/hostedzone/Z1'', hz_Name = ''example.test.'' \<rparr> # []), 1)"
    by (simp add: foreign_record_account_def deployed_account_def answer_def)
  have l: "r53_ListResourceRecordSets foreign_record_account
             (last (Split_slash (hz_Id \<lparr> hz_Id = ''/hostedzone/Z1'', hz_Name = ''example.test.'' \<rparr>)))
             (fullDomain demo_pm) ''CNAME'' 1 1
           = (Inr [\<lparr> rrs_Name = ''pr-43-site.example.test.'', rrs_Type = ''CNAME'',
                          rrs_TTL = Some 300, rrs_ResourceRecords = [''d222.cloudfront.net''] \<rparr>], 2)"
    by (simp add: foreign_record_account_def deployed_account_def answer_def)
  have n: "case [\<lparr> rrs_Name = ''pr-43-site.example.test.'', rrs_Type = ''CNAME'',
                          rrs_TTL = Some 300, rrs_ResourceRecords = [''d222.cloudfront.net''] \<rparr>] of
             [] \<Rightarrow> True | first # rest \<Rightarrow> rrs_Name first \<noteq> fullDomain demo_pm @ ''.''"
    by (simp add: demo_defs)
  have z2: "r53_ListHostedZonesByName unreadable_records_account (BaseDomain (cfg demo_pm)) 0
             = (Inr (\<lparr> hz_Id = ''/hostedzone/Z1'', hz_Name = ''example.test.'' \<rparr> # []), 1)"
    by (simp add: unreadable_records_account_def deployed_account_def answer_def)
  have l2: "r53_ListResourceRecordSets unreadable_records_account
             (last (Split_slash (hz_Id \<lparr> hz_Id = ''/hostedzone/Z1'', hz_Name = ''example.test.'' \<rparr>)))
             (fullDomain demo_pm) ''CNAME'' 1 1
           = (Inl ''Throttling'', 2)"
    by (simp add: unreadable_records_account_def failing_def)
  note T1 = deleteRoute53Record_guarded [OF run1]
  note T2 = deleteRoute53Record_guarded [OF run2]
  note a = T1 [THEN conjunct1]
  note b = T1 [THEN conjunct2, THEN conjunct1, rule_format, OF conjI [OF z conjI [OF l n]], THEN conjunct2]
  note c = T2 [THEN conjunct2, THEN conjunct2, THEN conjunct2, THEN conjunct2, rule_format,
               OF conjI [OF z2 l2]]
  from run1 a b c run2 show ?thesis by simp
qed

text \<open>
  Claim C4 as stated (in every case without a matching first record the step returns
  success) does not hold: when the records of the zone cannot be listed, no record was
  returned and the step returns the error of the listing.
\<close>

theorem deleteRoute53Record_counterexample:
  "deleteRoute53Record unreadable_records_account demo_pm (init 0) =
     (Inl ''failed to list records: Throttling'',
      \<lparr> world = 2,
        events =
          [Print ''Deleting Route53 DNS record...'',
           Call (ListHostedZonesByName ''example.test''
                  (Inr [\<lparr> hz_Id = ''/hostedzone/Z1'', hz_Name = ''example.test.'' \<rparr>])),
           Call (ListResourceRecordSets ''Z1'' ''pr-42-site.example.test'' ''CNAME'' 1
                  (Inl ''Throttling''))] \<rparr>)"
  by (simp add: unreadable_records_account_def dns_defs)

subsection \<open>Teardown of the distribution\<close>

text \<open>
  Claim C1, as amended. In every run of \<open>deleteCloudFrontDistribution\<close> that issues the
  delete, the requests of the run are exactly: the fetch of the configuration and of its
  version token; when that configuration is enabled, the update that switches it off,
  sent with that token, and the wait of at most 20 minutes, both answered without error;
  a second fetch; and the delete, sent with the token of the second fetch. The enabled
  flag of the second fetch is not examined.
\<close>

theorem deleteCloudFrontDistribution_order:
  assumes run: "deleteCloudFrontDistribution env pm i (init w) = (r, s')"
    and del: "OpDeleteDistribution \<in> operations (events s')"
  shows "\<exists>c1 t1 c2 t2 res.
           (\<not> dc_Enabled c1 \<and>
            calls (events s') =
              [GetDistributionConfig i (Inr (c1, t1)),
               GetDistributionConfig i (Inr (c2, t2)),
               DeleteDistribution i t2 res])
         \<or> (dc_Enabled c1 \<and>
            calls (events s') =
              [GetDistributionConfig i (Inr (c1, t1)),
               UpdateDistribution i (c1 \<lparr> dc_Enabled := False \<rparr>) t1 (Inr ()),
               WaitDistributionDeployed i 20 (Inr ()),
               GetDistributionConfig i (Inr (c2, t2)),
               DeleteDistribution i t2 res])"
  using run del
  by (auto simp add: deleteCloudFrontDistribution_def request_def init_def Println_def Let_def
      split: prod.splits sum.splits if_splits)

lemmas teardown_defs =
  deleteCloudFrontDistribution_def deployed_account_def demo_defs

theorem deleteCloudFrontDistribution_order_witness:
  "calls (events (snd (deleteCloudFrontDistribution deployed_account demo_pm ''E1'' (init 0)))) =
     [GetDistributionConfig ''E1'' (Inr (demo_config \<lparr> dc_Enabled := True \<rparr>, ''etag-0'')),
      UpdateDistribution ''E1'' (demo_config \<lparr> dc_Enabled := False \<rparr>) ''etag-0'' (Inr ()),
      WaitDistributionDeployed ''E1'' 20 (Inr ()),
      GetDistributionConfig ''E1'' (Inr (demo_config \<lparr> dc_Enabled := False \<rparr>, ''etag-3'')),
      DeleteDistribution ''E1'' ''etag-3'' (Inr ())]
   \<and> OpDeleteDistribution \<in>
        operations (events (snd (deleteCloudFrontDistribution deployed_account demo_pm ''E1'' (init 0))))
   \<and> (\<exists>c1 t1 c2 t2 res.
           (\<not> dc_Enabled c1 \<and>
            calls (events (snd (deleteCloudFrontDistribution deployed_account demo_pm ''E1'' (init 0)))) =
              [GetDistributionConfig ''E1'' (Inr (c1, t1)),
               GetDistributionConfig ''E1'' (Inr (c2, t2)),
               DeleteDistribution ''E1'' t2 res])
         \<or> (dc_Enabled c1 \<and>
            calls (events (snd (deleteCloudFrontDistribution deployed_account demo_pm ''E1'' (init 0)))) =
              [GetDistributionConfig ''E1'' (Inr (c1, t1)),
               UpdateDistribution ''E1'' (c1 \<lparr> dc_Enabled := False \<rparr>) t1 (Inr ()),
               WaitDistributionDeployed ''E1'' 20 (Inr ()),
               GetDistributionConfig ''E1'' (Inr (c2, t2)),
               DeleteDistribution ''E1'' t2 res]))"
proof -
  obtain r s' where run: "deleteCloudFrontDistribution deployed_account demo_pm ''E1'' (init 0) = (r, s')"
    by force
  have tr: "calls (events (snd (deleteCloudFrontDistribution deployed_account demo_pm ''E1'' (init 0)))) =
     [GetDistributionConfig ''E1'' (Inr (demo_config \<lparr> dc_Enabled := True \<rparr>, ''etag-0'')),
      UpdateDistribution ''E1'' (demo_config \<lparr> dc_Enabled := False \<rparr>) ''etag-0'' (Inr ()),
      WaitDistributionDeployed ''E1'' 20 (Inr ()),
      GetDistributionConfig ''E1'' (Inr (demo_config \<lparr> dc_Enabled := False \<rparr>, ''etag-3'')),
      DeleteDistribution ''E1'' ''etag-3'' (Inr ())]"
    by (simp add: teardown_defs)
  have del: "OpDeleteDistribution \<in> operations (events s')"
    using tr run by (simp add: operations_def)
  from deleteCloudFrontDistribution_order [OF run del] tr del run show ?thesis by simp
qed

text \<open>
  Claim C1 as stated (the delete is never issued while the configuration fetched most
  recently reports enabled) does not hold: when the distribution is disabled at the first
  fetch and enabled at the second, the delete is issued right after the second fetch.
\<close>

theorem deleteCloudFrontDistribution_counterexample:
  "calls (events (snd (deleteCloudFrontDistribution reenabled_account demo_pm ''E1'' (init 0)))) =
     [GetDistributionConfig ''E1'' (Inr (demo_config \<lparr> dc_Enabled := False \<rparr>, ''etag-0'')),
      GetDistributionConfig ''E1'' (Inr (demo_config \<lparr> dc_Enabled := True \<rparr>, ''etag-1'')),
      DeleteDistribution ''E1'' ''etag-1'' (Inr ())]
   \<and> \<not> delete_while_disabled None
         (calls (events (snd (deleteCloudFrontDistribution reenabled_account demo_pm ''E1'' (init 0)))))"
proof -
  have tr: "calls (events (snd (deleteCloudFrontDistribution reenabled_account demo_pm ''E1'' (init 0)))) =
     [GetDistributionConfig ''E1'' (Inr (demo_config \<lparr> dc_Enabled := False \<rparr>, ''etag-0'')),
      GetDistributionConfig ''E1'' (Inr (demo_config \<lparr> dc_Enabled := True \<rparr>, ''etag-1'')),
      DeleteDistribution ''E1'' ''etag-1'' (Inr ())]"
    by (simp add: reenabled_account_def teardown_defs)
  show ?thesis unfolding tr by simp
qed

subsection \<open>Deploy as a list of steps\<close>

lemma Deploy_as_steps: "Deploy env pm s0 = Deploy_spec env pm s0"
  by (simp add: Deploy_def Deploy_spec_def deploy_steps_def unit_step_def oac_step_def
      distribution_step_def notify_def no_ctx_def Let_def
      split: prod.splits sum.splits)

lemma run_steps_append:
  "run_steps (xs @ ys) c s =
     (case run_steps xs c s of
        (Inl e, s') \<Rightarrow> (Inl e, s')
      | (Inr c', s') \<Rightarrow> run_steps ys c' s')"
  by (induction xs arbitrary: c s) (auto split: prod.splits sum.splits)

lemma run_steps_first_failure:
  assumes "k < length steps"
    and "run_steps (take k steps) c s = (Inr c1, s1)"
    and "snd (steps ! k) c1 s1 = (Inl e, s2)"
  shows "run_steps steps c s = (Inl (wrap (fst (steps ! k)) e), s2)"
proof -
  have "steps = take k steps @ (steps ! k) # drop (Suc k) steps"
    using assms(1) by (simp add: id_take_nth_drop)
  then have "run_steps steps c s = run_steps (take k steps @ (steps ! k) # drop (Suc k) steps) c s"
    by simp
  also have "\<dots> = (Inl (wrap (fst (steps ! k)) e), s2)"
    using assms(2,3) by (cases "steps ! k") (simp add: run_steps_append)
  finally show ?thesis .
qed


text \<open>
  Claim C6. \<open>Deploy\<close> runs, in this order, the bucket step, the content sync, the
  access-control step, the distribution step, the bucket policy, the cache invalidation
  and the DNS upsert, and then the notification: it is the run of that list of steps.
  When the steps before the \<open>k\<close>-th succeed and the \<open>k\<close>-th fails, \<open>Deploy\<close> returns the
  error of that step under the message of the step and ends in the state that step left,
  so nothing is run after it. When all seven succeed the result is success whatever the
  notification does, and a failed notification is reported by a printed warning.
\<close>

theorem Deploy_ordered_steps:
  "Deploy env pm s0 = Deploy_spec env pm s0
   \<and> (\<forall>k c s1 e s2.
         k < length (deploy_steps env pm) \<and>
         run_steps (take k (deploy_steps env pm)) no_ctx (Println ''Starting deployment...'' s0)
           = (Inr c, s1) \<and>
         snd (deploy_steps env pm ! k) c s1 = (Inl e, s2)
         \<longrightarrow> Deploy env pm s0 = (Inl (wrap (fst (deploy_steps env pm ! k)) e), s2))
   \<and> (\<forall>c s1.
         run_steps (deploy_steps env pm) no_ctx (Println ''Starting deployment...'' s0) = (Inr c, s1)
         \<longrightarrow> Deploy env pm s0 = (Inr (), notify env pm s1))
   \<and> (\<forall>s1 e s2.
         postGitHubComment env pm s1 = (Inl e, s2)
         \<longrightarrow> notify env pm s1 = Println (''Warning: Failed to post GitHub comment: '' @ e) s2)"
proof -
  have g1: "Deploy env pm s0 = Deploy_spec env pm s0" by (rule Deploy_as_steps)
  have g2: "\<forall>k c s1 e s2.
         k < length (deploy_steps env pm) \<and>
         run_steps (take k (deploy_steps env pm)) no_ctx (Println ''Starting deployment...'' s0)
           = (Inr c, s1) \<and>
         snd (deploy_steps env pm ! k) c s1 = (Inl e, s2)
         \<longrightarrow> Deploy env pm s0 = (Inl (wrap (fst (deploy_steps env pm ! k)) e), s2)"
  proof (intro allI impI)
    fix k c s1 e s2
    assume a: "k < length (deploy_steps env pm) \<and>
         run_steps (take k (deploy_steps env pm)) no_ctx (Println ''Starting deployment...'' s0)
           = (Inr c, s1) \<and>
         snd (deploy_steps env pm ! k) c s1 = (Inl e, s2)"
    then have "run_steps (deploy_steps env pm) no_ctx (Println ''Starting deployment...'' s0)
          = (Inl (wrap (fst (deploy_steps env pm ! k)) e), s2)"
      using run_steps_first_failure [of k "deploy_steps env pm" no_ctx _ c s1 e s2] by blast
    then show "Deploy env pm s0 = (Inl (wrap (fst (deploy_steps env pm ! k)) e), s2)"
      by (simp add: g1 Deploy_spec_def)
  qed
  have g3: "\<forall>c s1.
         run_steps (deploy_steps env pm) no_ctx (Println ''Starting deployment...'' s0) = (Inr c, s1)
         \<longrightarrow> Deploy env pm s0 = (Inr (), notify env pm s1)"
    by (simp add: g1 Deploy_spec_def)
  have g4: "\<forall>s1 e s2.
         postGitHubComment env pm s1 = (Inl e, s2)
         \<longrightarrow> notify env pm s1 = Println (''Warning: Failed to post GitHub comment: '' @ e) s2"
    by (simp add: notify_def)
  from g1 g2 g3 g4 show ?thesis by (intro conjI)
qed

lemmas deploy_run_defs =
  createS3Bucket_def syncFilesToS3_def getOrCreateOAC_def
  getOrCreateCloudFrontDistribution_def findCloudFrontDistribution_def hasAlias_def
  createCloudFrontDistribution_def setBucketPolicyForOAC_def invalidateCloudFrontCache_def
  updateRoute53_def getHostedZoneID_def postGitHubComment_def Split_slash_def
  deploy_steps_def unit_step_def oac_step_def distribution_step_def no_ctx_def notify_def
  deployed_account_def demo_defs demo_config_def
  getContentType_def Ext_def ToLower_def is_ascii_def lower_byte_def upper_lower_def contentTypes_def

theorem Deploy_ordered_steps_witness:
  "fst (Deploy oac_denied_account demo_pm (init 0))
     = Inl ''failed to manage OAC: failed to list OACs: AccessDenied''
   \<and> map operation_of (calls (events (snd (Deploy oac_denied_account demo_pm (init 0)))))
     = [OpHeadBucket, OpPutObject, OpPutObject, OpListOriginAccessControls]
   \<and> fst (Deploy comment_denied_account demo_pm (init 0)) = Inr ()
   \<and> last (events (snd (Deploy comment_denied_account demo_pm (init 0))))
     = Print ''Warning: Failed to post GitHub comment: failed to create comment: 403 Forbidden''
   \<and> map operation_of (calls (events (snd (Deploy comment_denied_account demo_pm (init 0)))))
     = [OpHeadBucket, OpPutObject, OpPutObject, OpListOriginAccessControls, OpListDistributions,
        OpGetDistribution, OpPutBucketPolicy, OpCreateInvalidation, OpListHostedZonesByName,
        OpGetDistribution, OpUpsertRecord, OpCreateComment]"
proof -
  let ?A = "oac_denied_account" and ?B = "comment_denied_account"
  let ?start = "Println ''Starting deployment...'' (init (0::nat))"
  obtain s1 where pre: "run_steps (take 2 (deploy_steps ?A demo_pm)) no_ctx ?start = (Inr no_ctx, s1)"
    and ops1: "map operation_of (calls (events s1)) = [OpHeadBucket, OpPutObject, OpPutObject]"
    and w1: "world s1 = 3"
    by (simp add: oac_denied_account_def deploy_run_defs)
  obtain s2 where fail: "snd (deploy_steps ?A demo_pm ! 2) no_ctx s1 = (Inl ''failed to list OACs: AccessDenied'', s2)"
    and ops2: "map operation_of (calls (events s2)) = [OpHeadBucket, OpPutObject, OpPutObject, OpListOriginAccessControls]"
    using ops1 w1
    by (simp add: oac_denied_account_def deploy_run_defs)
  have len: "2 < length (deploy_steps ?A demo_pm)" by (simp add: deploy_steps_def)
  note T = Deploy_ordered_steps [of ?A demo_pm "init 0"]
  note a = T [THEN conjunct2, THEN conjunct1, rule_format, OF conjI [OF len conjI [OF pre fail]]]
  obtain c3 s3 where all: "run_steps (deploy_steps ?B demo_pm) no_ctx ?start = (Inr c3, s3)"
    and w3: "world s3 = 11"
    by (simp add: comment_denied_account_def deploy_run_defs bucketPolicy_def)
  obtain s4 where post: "postGitHubComment ?B demo_pm s3 = (Inl ''failed to create comment: 403 Forbidden'', s4)"
    by (simp add: comment_denied_account_def deploy_run_defs)
  note U = Deploy_ordered_steps [of ?B demo_pm "init 0"]
  note b = U [THEN conjunct2, THEN conjunct2, THEN conjunct1, rule_format, OF all]
  note c = U [THEN conjunct2, THEN conjunct2, THEN conjunct2, rule_format, OF post]
  have msg: "fst (deploy_steps ?A demo_pm ! 2) = ''failed to manage OAC''"
    by (simp add: deploy_steps_def)
  have seq: "map operation_of (calls (events (snd (Deploy ?B demo_pm (init 0)))))
     = [OpHeadBucket, OpPutObject, OpPutObject, OpListOriginAccessControls, OpListDistributions,
        OpGetDistribution, OpPutBucketPolicy, OpCreateInvalidation, OpListHostedZonesByName,
        OpGetDistribution, OpUpsertRecord, OpCreateComment]"
    by (simp add: Deploy_def comment_denied_account_def deploy_run_defs)
  from a ops2 b c msg seq show ?thesis by (simp add: wrap_def)
qed

subsection \<open>Deploy on an environment that is already deployed\<close>






























end
